theory Spec2Isabelle
  imports Complex_Main
begin

section \<open>Python values and errors\<close>

text \<open>
  The panel is Python. Numbers (field values, thresholds, histogram edges) are modelled as
  exact reals, \<open>None\<close> as the \<open>None\<close> of an option type, and every exception the
  modelled code can raise as a value of \<open>error\<close>.
\<close>

datatype error =
  TypeError | KeyError | IndexError | ValueError | AttributeError | Exception string

section \<open>Threshold ranges\<close>

text \<open>
  \<open>get_threshold_range\<close> (lines 449-470): a chain of four tests, each with its own
  return, and a final fall-through return. Python's chained comparison
  \<open>a <= x <= b\<close> is the conjunction of the two comparisons.
\<close>

definition get_threshold_range :: "real \<Rightarrow> real \<Rightarrow> real \<Rightarrow> real \<Rightarrow> real \<times> real" where
  "get_threshold_range min_v max_v lower_std_bound upper_std_bound =
     (if (lower_std_bound \<le> min_v \<and> min_v \<le> upper_std_bound)
          \<and> (lower_std_bound \<le> max_v \<and> max_v \<le> upper_std_bound)
      then (min_v, max_v)
      else if min_v < lower_std_bound \<and> max_v \<le> upper_std_bound
      then (min_v, lower_std_bound)
      else if max_v > upper_std_bound \<and> min_v \<ge> lower_std_bound
      then (upper_std_bound, max_v)
      else if min_v < lower_std_bound \<and> max_v > upper_std_bound
      then (if (lower_std_bound - min_v) > (max_v - upper_std_bound)
            then (min_v, lower_std_bound)
            else (upper_std_bound, max_v))
      else (lower_std_bound, upper_std_bound))"

section \<open>Histogram bucketing\<close>

text \<open>
  \<open>prepare_histogram_data\<close> (lines 548-570). The loop runs over
  \<open>range(len(counts))\<close>; \<open>edges[i]\<close> and \<open>edges[i + 1]\<close> raise IndexError
  when the edge list is too short, \<open>counts[i]\<close> is always in range. The two result lists
  grow by one entry per iteration.

  The edges and the thresholds are floats, read as the real numbers they denote, and
  comparing two floats compares these numbers. The midpoint of line 558 is computed in
  binary floating point, so it is a rounded value and not the exact midpoint: the float
  addition and the float division are the parameters \<open>fadd\<close> and \<open>fdiv\<close> of the
  model, and the midpoint is \<open>fdiv (fadd range_start range_end) 2\<close>.
\<close>

fun hist_loop ::
  "(real \<Rightarrow> real \<Rightarrow> real) \<Rightarrow> (real \<Rightarrow> real \<Rightarrow> real)
     \<Rightarrow> nat list \<Rightarrow> int list \<Rightarrow> real list \<Rightarrow> real \<Rightarrow> real \<Rightarrow> int list \<times> int list
     \<Rightarrow> error + (int list \<times> int list)" where
  "hist_loop fadd fdiv [] counts edges lower_thresh upper_thresh acc = Inr acc"
| "hist_loop fadd fdiv (i # rest) counts edges lower_thresh upper_thresh
       (in_threshold_counts, out_of_threshold_counts) =
     (if i < length edges \<and> i + 1 < length edges then
        (let range_start = edges ! i;
             range_end = edges ! (i + 1);
             midpoint = fdiv (fadd range_start range_end) 2
         in if lower_thresh \<le> midpoint \<and> midpoint \<le> upper_thresh
            then hist_loop fadd fdiv rest counts edges lower_thresh upper_thresh
                   (in_threshold_counts @ [counts ! i], out_of_threshold_counts @ [0])
            else hist_loop fadd fdiv rest counts edges lower_thresh upper_thresh
                   (in_threshold_counts @ [0], out_of_threshold_counts @ [counts ! i]))
      else Inl IndexError)"

definition prepare_histogram_data ::
  "(real \<Rightarrow> real \<Rightarrow> real) \<Rightarrow> (real \<Rightarrow> real \<Rightarrow> real)
     \<Rightarrow> int list \<Rightarrow> real list \<Rightarrow> real \<Rightarrow> real \<Rightarrow> error + (int list \<times> int list)" where
  "prepare_histogram_data fadd fdiv counts edges lower_thresh upper_thresh =
     hist_loop fadd fdiv [0..<length counts] counts edges lower_thresh upper_thresh ([], [])"

section \<open>Threshold defaults\<close>

text \<open>
  \<open>get_plot_defaults\<close> (lines 472-524) reads the saved \<open>min\<close> and \<open>max\<close> of the
  issue's configuration (\<open>None\<close> when the key is absent) and the observed bounds of the
  field, which the dataset reports as \<open>None\<close> when no sample carries the field. The part
  of the function after these reads is \<open>plot_defaults\<close>; the reads themselves are in
  \<open>get_plot_defaults\<close> below, once the panel's context is defined.

  \<open>saved_thresholds\<close> is the first \<open>if\<close> (lines 481-489). Python's \<open>and\<close>
  evaluates left to right and stops at the first falsy operand; \<open>None\<close> and \<open>0\<close> are
  falsy; comparing a number with \<open>None\<close> raises TypeError.
\<close>

definition saved_thresholds ::
  "real option \<Rightarrow> real option \<Rightarrow> real option \<Rightarrow> real option \<Rightarrow> error + (real \<times> real) option" where
  "saved_thresholds new_lower new_upper min_v max_v =
     (case new_lower of None \<Rightarrow> Inr None | Some nl \<Rightarrow>
      if nl = 0 then Inr None else
      (case new_upper of None \<Rightarrow> Inr None | Some nu \<Rightarrow>
       if nu = 0 then Inr None else
       (case min_v of None \<Rightarrow> Inl TypeError | Some mn \<Rightarrow>
        if \<not> nl \<ge> mn then Inr None else
        (case max_v of None \<Rightarrow> Inl TypeError | Some mx \<Rightarrow>
         if \<not> nl < mx then Inr None
         else if \<not> nu > mn then Inr None
         else if \<not> nu \<le> mx then Inr None
         else Inr (Some (nl, nu))))))"

text \<open>
  The \<open>percentage\<close> branch (lines 491-513). \<open>max_v - min_v\<close>,
  \<open>new_lower * value_range\<close> and \<open>new_upper * value_range\<close> raise TypeError on
  \<open>None\<close>; they are evaluated before the \<open>is not None\<close> tests of the two conditional
  expressions.
\<close>

definition percentage_defaults ::
  "real option \<Rightarrow> real option \<Rightarrow> real option \<Rightarrow> real option \<Rightarrow> error + (real \<times> real)" where
  "percentage_defaults new_lower new_upper min_v max_v =
     (case (min_v, max_v) of
        (Some mn, Some mx) \<Rightarrow>
          (let value_range = mx - mn in
           (case new_lower of None \<Rightarrow> Inl TypeError | Some nl \<Rightarrow>
             (let lower_factor = nl * value_range;
                  lower_thresh = (if mn + lower_factor \<le> mx then mn + lower_factor else mn)
              in (case new_upper of None \<Rightarrow> Inl TypeError | Some nu \<Rightarrow>
                   (let upper_factor = nu * value_range;
                        upper_thresh = (if mn + upper_factor \<ge> mn then mn + upper_factor else mx)
                    in if upper_thresh < lower_thresh then Inr (mn, mn)
                       else Inr (lower_thresh, upper_thresh))))))
      | _ \<Rightarrow> Inl TypeError)"

text \<open>The \<open>threshold\<close> branch (lines 515-524).\<close>

definition threshold_defaults ::
  "real option \<Rightarrow> real option \<Rightarrow> real option \<Rightarrow> real option \<Rightarrow> error + (real \<times> real)" where
  "threshold_defaults new_lower new_upper min_v max_v =
     (case (new_upper, min_v) of
        (Some nu, Some mn) \<Rightarrow>
          if nu < mn then Inr (nu, nu)
          else (case (new_lower, max_v) of
                  (Some nl, Some mx) \<Rightarrow> if nl > mx then Inr (nl, nl) else Inr (nl, nu)
                | _ \<Rightarrow> Inl TypeError)
      | _ \<Rightarrow> Inl TypeError)"

text \<open>
  The result is \<open>None\<close> when the method is neither \<open>percentage\<close> nor \<open>threshold\<close>:
  the Python function then falls off its end.
\<close>

definition plot_defaults ::
  "real option \<Rightarrow> real option \<Rightarrow> real option \<Rightarrow> real option \<Rightarrow> string
     \<Rightarrow> error + (real \<times> real) option" where
  "plot_defaults new_lower new_upper min_v max_v method =
     (case saved_thresholds new_lower new_upper min_v max_v of
        Inl e \<Rightarrow> Inl e
      | Inr (Some saved) \<Rightarrow> Inr (Some saved)
      | Inr None \<Rightarrow>
          if method = ''percentage'' then
            (case percentage_defaults new_lower new_upper min_v max_v of
               Inl e \<Rightarrow> Inl e | Inr r \<Rightarrow> Inr (Some r))
          else if method = ''threshold'' then
            (case threshold_defaults new_lower new_upper min_v max_v of
               Inl e \<Rightarrow> Inl e | Inr r \<Rightarrow> Inr (Some r))
          else Inr None)"

section \<open>The dataset\<close>

text \<open>
  The dataset is the host's query engine. Its answers are taken as they come: each query
  the panel makes is a field of the record, and a query that can fail answers with an
  error. The samples themselves appear only with what \<open>_process_exact_duplicates\<close>
  reads, the identifier and the content hash (\<open>None\<close> when the sample has none).
  \<open>count()\<close> is the number of samples.
\<close>

record ('i, 'h) dataset =
  has_field :: "string \<Rightarrow> bool"
  samples :: "('i \<times> 'h option) list"
  histogram_values :: "string \<Rightarrow> error + (int list \<times> real list)"
  bounds :: "string \<Rightarrow> error + (real option \<times> real option)"
  match_count :: "string \<Rightarrow> real option \<Rightarrow> real option \<Rightarrow> error + nat"
  exists_count :: "string \<Rightarrow> error + nat"

section \<open>Exact-duplicate grouping\<close>

text \<open>
  \<open>_process_exact_duplicates\<close> (lines 881-901). \<open>exists_filehash\<close> is
  \<open>ctx.dataset.exists("filehash")\<close> followed by \<open>values(["id", "filehash"])\<close>: the
  samples whose hash is not \<open>None\<close>, in dataset order.
\<close>

fun exists_filehash :: "('i \<times> 'h option) list \<Rightarrow> ('i \<times> 'h) list" where
  "exists_filehash [] = []"
| "exists_filehash ((i, None) # rest) = exists_filehash rest"
| "exists_filehash ((i, Some h) # rest) = (i, h) # exists_filehash rest"

text \<open>
  \<open>Counter\<close> and \<open>defaultdict(list)\<close> are dictionaries, which keep their keys in
  insertion order: association lists with one entry per key, a new key added at the end.
\<close>

fun counter_add :: "'h \<Rightarrow> ('h \<times> nat) list \<Rightarrow> ('h \<times> nat) list" where
  "counter_add k [] = [(k, 1)]"
| "counter_add k ((k', n) # rest) =
     (if k = k' then (k', n + 1) # rest else (k', n) # counter_add k rest)"

definition Counter :: "'h list \<Rightarrow> ('h \<times> nat) list" where
  "Counter xs = foldl (\<lambda>m k. counter_add k m) [] xs"

fun append_id :: "'h \<Rightarrow> 'i \<Rightarrow> ('h \<times> 'i list) list \<Rightarrow> ('h \<times> 'i list) list" where
  "append_id k v [] = [(k, [v])]"
| "append_id k v ((k', vs) # rest) =
     (if k = k' then (k', vs @ [v]) # rest else (k', vs) # append_id k v rest)"

fun group_loop ::
  "('i \<times> 'h) list \<Rightarrow> 'h list \<Rightarrow> ('h \<times> 'i list) list \<Rightarrow> ('h \<times> 'i list) list" where
  "group_loop [] dup_filehashes filehash_to_ids = filehash_to_ids"
| "group_loop ((sid, filehash) # rest) dup_filehashes filehash_to_ids =
     (if filehash \<in> set dup_filehashes
      then group_loop rest dup_filehashes (append_id filehash sid filehash_to_ids)
      else group_loop rest dup_filehashes filehash_to_ids)"

text \<open>
  \<open>dup_filehashes\<close> is a Python set turned into a list, whose order Python does not fix;
  the model lists it in the order of the counter's keys, and only its elements are
  meaningful.
\<close>

definition process_exact_duplicates ::
  "('i, 'h) dataset \<Rightarrow> 'h list \<times> ('h \<times> 'i list) list \<times> nat" where
  "process_exact_duplicates ds =
     (let (sample_ids, filehashes) =
            (if has_field ds ''filehash''
             then (let view = exists_filehash (samples ds) in (map fst view, map snd view))
             else ([], []));
          filehash_counts = Counter filehashes;
          dup_filehashes = map fst (filter (\<lambda>(k, v). v > 1) filehash_counts);
          filehash_to_ids =
            (if dup_filehashes \<noteq> []
             then group_loop (zip sample_ids filehashes) dup_filehashes []
             else []);
          dup_sample_ids = filehash_to_ids;
          num_duplicates = sum_list (map (\<lambda>(k, ids). length ids) filehash_to_ids)
      in (dup_filehashes, dup_sample_ids, num_duplicates))"

section \<open>The panel's context\<close>

text \<open>
  Issue types are the strings the panel uses as dictionary keys. Times are
  \<open>datetime\<close> values, counted in microseconds.
\<close>

type_synonym issue = string
type_synonym time = int

definition timedelta_minutes :: "int \<Rightarrow> int" where
  "timedelta_minutes m = m * 60000000"

text \<open>
  Modelled from the spec: the table \<open>STATUS\<close> of \<open>constants.py\<close>, which is not part of
  the sources at hand. The specification names its four entries, in order:
  \<open>STATUS[0]\<close> is \<open>NOT_COMPUTED\<close>, \<open>STATUS[1]\<close> is \<open>COMPUTING\<close>, \<open>STATUS[2]\<close> is
  \<open>NEEDS_REVIEW\<close> and \<open>STATUS[3]\<close> is \<open>REVIEWED\<close>. The code below writes the
  constructor where the source writes the table entry.
\<close>

datatype status = NOT_COMPUTED | COMPUTING | NEEDS_REVIEW | REVIEWED

record config =
  cfg_min :: "real option"
  cfg_max :: "real option"
  detect_method :: string

record computing_rec =
  is_computing :: bool
  execution_type :: string
  delegation_run_id :: string
  delegation_status :: string

record last_scan_rec =
  timestamp :: "time option"
  dataset_size :: "nat option"

record ('i, 'h) results_rec =
  r_counts :: "int list option"
  r_edges :: "real list option"
  dup_filehash :: "'h list option"
  dup_sample_ids :: "('h \<times> 'i list) list option"

text \<open>
  The blob the panel keeps in the execution store under its key. \<open>store.get\<close> hands
  out the persisted blob, and what a handler changes in it is persisted by
  \<open>store.set\<close> only. The keys \<open>results\<close>, \<open>counts\<close>, \<open>current_counts\<close> and
  \<open>status\<close> are dictionaries by issue type; the keys \<open>last_scan\<close> and \<open>computing\<close>
  may be absent or hold \<open>None\<close> (both \<open>None\<close> here), which the source tests for, and
  an entry of \<open>last_scan\<close> may itself be \<open>None\<close>. An entry of \<open>computing\<close> carries its four keys; the source reads
  a missing \<open>execution_type\<close> as a value other than \<open>delegate_execution\<close>, as the empty
  string is.
\<close>

record ('i, 'h) content =
  c_results :: "issue \<rightharpoonup> ('i, 'h) results_rec"
  c_counts :: "issue \<rightharpoonup> nat"
  c_current_counts :: "issue \<rightharpoonup> nat"
  c_status :: "issue \<rightharpoonup> status"
  c_last_scan :: "(issue \<rightharpoonup> last_scan_rec option) option"
  c_computing :: "(issue \<rightharpoonup> computing_rec) option"

text \<open>
  \<open>ctx.panel.state\<close>, with the attributes the modelled handlers read or write. An entry
  of \<open>new_samples\<close> is the list \<open>[count, checked, rescanned]\<close>. Writes to the paths of
  single widgets (\<open>ctx.panel.state.set\<close> with a path into the rendered tree) only
  preset what the next render shows; no handler reads them back, and they are left out.
\<close>

record panel_state =
  screen :: string
  p_issue_type :: "issue option"
  alert :: string
  first_open :: bool
  hist_lower_thresh :: "real option"
  hist_upper_thresh :: "real option"
  issue_config :: "issue \<rightharpoonup> config"
  issue_counts :: "issue \<rightharpoonup> nat"
  p_computing :: "(issue \<rightharpoonup> computing_rec) option"
  new_samples :: "issue \<rightharpoonup> (nat \<times> bool \<times> bool)"

text \<open>The view the host shows, as set by \<open>ctx.ops.set_view\<close> and \<open>clear_view\<close>.\<close>

datatype 'h view =
  DatasetView
  | MatchView string "real option" "real option"
  | ExactDupView "'h list"
  | NoView

text \<open>\<open>ctx.params\<close>: a key that is absent and a key that holds \<open>None\<close> read alike.\<close>

record params =
  prm_issue_type :: "issue option"
  prm_run_id :: "string option"
  prm_next_screen :: "string option"
  prm_recompute :: "bool option"

text \<open>
  The tables of \<open>constants.py\<close> that the handlers read are parameters of the model:
  \<open>FIELD_NAME\<close>, and the \<open>results\<close> and \<open>last_scan\<close> entries of \<open>SAMPLE_STORE\<close>.
\<close>

record ('i, 'h) constants =
  FIELD_NAME :: "issue \<rightharpoonup> string"
  SAMPLE_STORE_results :: "issue \<rightharpoonup> ('i, 'h) results_rec"
  SAMPLE_STORE_last_scan :: "issue \<rightharpoonup> last_scan_rec option"

text \<open>
  Everything a handler can read or change. \<open>dos_run_state\<close> is
  \<open>DelegatedOperationService().get(bson.ObjectId(run_id)).run_state\<close>, which answers
  with the state of the run or raises; \<open>bson.ObjectId\<close> raises for a string that is
  not made of 24 hexadecimal digits. \<open>now\<close> is \<open>datetime.utcnow()\<close>, taken to be the
  same at every reading within one handler call. The dataset answers the same query the
  same way throughout one handler call.
\<close>

record ('i, 'h) ctx =
  tables :: "('i, 'h) constants"
  params :: params
  panel :: panel_state
  store :: "('i, 'h) content option"
  dataset :: "('i, 'h) dataset"
  view :: "'h view"
  now :: time
  dos_run_state :: "string option \<Rightarrow> error + string option"

text \<open>
  A handler is a function from the context to an outcome (an error or a value) and the
  context it leaves behind: what a handler has changed before it raises stays changed.
\<close>

definition seq ::
  "('s \<Rightarrow> (error + 'a) \<times> 's) \<Rightarrow> ('s \<Rightarrow> (error + 'b) \<times> 's) \<Rightarrow> 's \<Rightarrow> (error + 'b) \<times> 's" where
  "seq m k s = (case m s of (Inl e, s') \<Rightarrow> (Inl e, s') | (Inr _, s') \<Rightarrow> k s')"

definition py_str :: "string option \<Rightarrow> string" where
  "py_str v = (case v of None \<Rightarrow> ''None'' | Some s \<Rightarrow> s)"

text \<open>\<open>str.lower\<close> on the ASCII letters, which is what run states are made of.\<close>

definition lower_char :: "char \<Rightarrow> char" where
  "lower_char c =
     (let n = (of_char c :: nat) in if 65 \<le> n \<and> n \<le> 90 then char_of (n + 32) else c)"

definition py_lower :: "string \<Rightarrow> string" where
  "py_lower s = map lower_char s"

section \<open>Handlers\<close>

text \<open>
  \<open>get_plot_defaults\<close> (lines 472-479): the reads that come before
  \<open>plot_defaults\<close>. A missing dictionary key raises KeyError.
\<close>

definition get_plot_defaults ::
  "('i, 'h) ctx \<Rightarrow> issue \<Rightarrow> string \<Rightarrow> error + (real \<times> real) option" where
  "get_plot_defaults c field method =
     (case issue_config (panel c) field of
        None \<Rightarrow> Inl KeyError
      | Some cfg \<Rightarrow>
          (case FIELD_NAME (tables c) field of
             None \<Rightarrow> Inl KeyError
           | Some field_name \<Rightarrow>
               (case bounds (dataset c) field_name of
                  Inl e \<Rightarrow> Inl e
                | Inr (min_v, max_v) \<Rightarrow>
                    plot_defaults (cfg_min cfg) (cfg_max cfg) min_v max_v method)))"

text \<open>\<open>_get_issue_status\<close> (lines 622-630).\<close>

definition get_issue_status :: "issue \<Rightarrow> ('i, 'h) ctx \<Rightarrow> status" where
  "get_issue_status issue_type c =
     (case store c of
        None \<Rightarrow> NOT_COMPUTED
      | Some content \<Rightarrow>
          (case c_status content issue_type of None \<Rightarrow> NOT_COMPUTED | Some s \<Rightarrow> s))"

text \<open>
  \<open>change_computing_status\<close> (lines 779-807). The entry is written into the panel's
  \<open>computing\<close> dictionary, and that dictionary replaces the one of the stored blob.
  Item assignment on \<open>None\<close> raises TypeError. \<open>issue_status\<close> is \<open>None\<close> or an
  entry of \<open>STATUS\<close>. The keyword defaults of the source (\<open>False\<close>, three empty
  strings, \<open>None\<close>) are written out at each call.
\<close>

definition change_computing_status ::
  "issue \<Rightarrow> bool \<Rightarrow> string \<Rightarrow> string \<Rightarrow> string \<Rightarrow> status option
     \<Rightarrow> ('i, 'h) ctx \<Rightarrow> (error + unit) \<times> ('i, 'h) ctx" where
  "change_computing_status issue_type is_comp exec_type run_id deleg_status issue_status c =
     (case p_computing (panel c) of
        None \<Rightarrow> (Inl TypeError, c)
      | Some computing_copy \<Rightarrow>
          (let computing_copy' = computing_copy(issue_type \<mapsto>
                 \<lparr>is_computing = is_comp, execution_type = exec_type,
                  delegation_run_id = run_id, delegation_status = deleg_status\<rparr>);
               c1 = c\<lparr>panel := (panel c)\<lparr>p_computing := Some computing_copy'\<rparr>\<rparr>
           in (case store c of
                 None \<Rightarrow> (Inl TypeError, c1)
               | Some content \<Rightarrow>
                   (let content1 = content\<lparr>c_computing := Some computing_copy'\<rparr>;
                        content2 = (case issue_status of
                                      None \<Rightarrow> content1
                                    | Some st \<Rightarrow>
                                        content1\<lparr>c_status := (c_status content1)(issue_type \<mapsto> st)\<rparr>)
                    in (Inr (), c1\<lparr>store := Some content2\<rparr>)))))"

text \<open>
  \<open>set_hist_defaults\<close> (lines 526-546). Unpacking the \<open>None\<close> that
  \<open>get_plot_defaults\<close> returns for an unknown method raises TypeError.
\<close>

definition set_hist_defaults :: "('i, 'h) ctx \<Rightarrow> (error + unit) \<times> ('i, 'h) ctx" where
  "set_hist_defaults c =
     (case p_issue_type (panel c) of
        None \<Rightarrow> (Inl KeyError, c)
      | Some field \<Rightarrow>
          (case issue_config (panel c) field of
             None \<Rightarrow> (Inl KeyError, c)
           | Some cfg \<Rightarrow>
               if hist_lower_thresh (panel c) = None \<or> hist_upper_thresh (panel c) = None then
                 (case get_plot_defaults c field (detect_method cfg) of
                    Inl e \<Rightarrow> (Inl e, c)
                  | Inr None \<Rightarrow> (Inl TypeError, c)
                  | Inr (Some (lower_threshold, upper_threshold)) \<Rightarrow>
                      (Inr (), c\<lparr>panel := (panel c)\<lparr>hist_lower_thresh := Some lower_threshold,
                                                     hist_upper_thresh := Some upper_threshold\<rparr>\<rparr>))
               else (Inr (), c)))"

text \<open>
  \<open>change_view\<close> (lines 366-447). The status change of lines 378-379 is made in the
  local blob and reaches the store only in the branches that call \<open>store.set\<close>.
  \<open>a or b\<close> on the two thresholds is true when one of them is neither \<open>None\<close> nor
  \<open>0\<close>.
\<close>

definition truthy :: "real option \<Rightarrow> bool" where
  "truthy v = (case v of None \<Rightarrow> False | Some x \<Rightarrow> x \<noteq> 0)"

definition change_view :: "issue \<Rightarrow> ('i, 'h) ctx \<Rightarrow> (error + unit) \<times> ('i, 'h) ctx" where
  "change_view issue_type c =
     (case FIELD_NAME (tables c) issue_type of
        None \<Rightarrow> (Inl KeyError, c)
      | Some field \<Rightarrow>
      (case store c of
         None \<Rightarrow> (Inl AttributeError, c)
       | Some content0 \<Rightarrow>
       (case c_status content0 issue_type of
          None \<Rightarrow> (Inl KeyError, c)
        | Some st \<Rightarrow>
        (let content = (if st = NOT_COMPUTED
                        then content0\<lparr>c_status := (c_status content0)(issue_type \<mapsto> NEEDS_REVIEW)\<rparr>
                        else content0);
             lower = hist_lower_thresh (panel c);
             upper = hist_upper_thresh (panel c)
         in
         if issue_type \<notin> {''near_duplicates'', ''exact_duplicates''} \<and> (truthy lower \<or> truthy upper) then
           (case match_count (dataset c) field lower upper of
              Inl e \<Rightarrow> (Inl e, c)
            | Inr num_issue_samples \<Rightarrow>
                (Inr (), c\<lparr>view := MatchView field lower upper,
                           panel := (panel c)\<lparr>issue_counts :=
                                       (issue_counts (panel c))(issue_type \<mapsto> num_issue_samples)\<rparr>,
                           store := Some (content\<lparr>c_current_counts :=
                                       (c_current_counts content)(issue_type \<mapsto> num_issue_samples)\<rparr>)\<rparr>))
         else if issue_type = ''near_duplicates'' \<and> (truthy lower \<or> truthy upper) then
           (case match_count (dataset c) field lower upper of
              Inl e \<Rightarrow> (Inl e, c)
            | Inr num_issue_samples \<Rightarrow>
                (Inr (), c\<lparr>panel := (panel c)\<lparr>issue_counts :=
                                       (issue_counts (panel c))(issue_type \<mapsto> num_issue_samples)\<rparr>,
                           store := Some (content\<lparr>c_current_counts :=
                                       (c_current_counts content)(issue_type \<mapsto> num_issue_samples)\<rparr>),
                           view := MatchView field lower upper\<rparr>))
         else if issue_type = ''exact_duplicates'' \<and> has_field (dataset c) field then
           (case c_results content issue_type of
              None \<Rightarrow> (Inl KeyError, c)
            | Some res \<Rightarrow>
              (case dup_filehash res of
                 None \<Rightarrow> (Inl KeyError, c)
               | Some dup_filehashes \<Rightarrow>
                 (case c_counts content issue_type of
                    None \<Rightarrow> (Inl KeyError, c)
                  | Some num_duplicates \<Rightarrow>
                      (Inr (), c\<lparr>panel := (panel c)\<lparr>issue_counts :=
                                             (issue_counts (panel c))(issue_type \<mapsto> num_duplicates)\<rparr>,
                                 store := Some (content\<lparr>
                                    c_counts := (c_counts content)(issue_type \<mapsto> num_duplicates),
                                    c_current_counts :=
                                       (c_current_counts content)(issue_type \<mapsto> num_duplicates)\<rparr>),
                                 view := ExactDupView dup_filehashes\<rparr>))))
         else (Inr (), c\<lparr>view := NoView\<rparr>)))))"

text \<open>\<open>should_reset_issue\<close> (lines 180-193).\<close>

definition should_reset_issue :: "issue \<Rightarrow> ('i, 'h) ctx \<Rightarrow> error + bool" where
  "should_reset_issue issue_type c =
     (if get_issue_status issue_type c \<in> {NEEDS_REVIEW, REVIEWED} then
        (case FIELD_NAME (tables c) issue_type of
           None \<Rightarrow> Inl KeyError
         | Some field \<Rightarrow>
             (case exists_count (dataset c) field of
                Inl e \<Rightarrow> Inl e
              | Inr sample_count_with_field \<Rightarrow> Inr (sample_count_with_field = 0)))
      else Inr False)"

text \<open>\<open>reset_issue\<close> (lines 195-214).\<close>

definition reset_issue :: "issue \<Rightarrow> ('i, 'h) ctx \<Rightarrow> (error + unit) \<times> ('i, 'h) ctx" where
  "reset_issue issue_type =
     seq (change_computing_status issue_type False [] [] [] (Some NOT_COMPUTED))
       (\<lambda>c. case store c of
          None \<Rightarrow>
            (case SAMPLE_STORE_results (tables c) issue_type of
               None \<Rightarrow> (Inl KeyError, c) | Some _ \<Rightarrow> (Inl TypeError, c))
        | Some content \<Rightarrow>
            (case SAMPLE_STORE_results (tables c) issue_type of
               None \<Rightarrow> (Inl KeyError, c)
             | Some sample_results \<Rightarrow>
                 (case SAMPLE_STORE_last_scan (tables c) issue_type of
                    None \<Rightarrow> (Inl KeyError, c)
                  | Some sample_last_scan \<Rightarrow>
                      (case c_last_scan content of
                         None \<Rightarrow> (Inl KeyError, c)
                       | Some last_scans \<Rightarrow>
                           (Inr (), c\<lparr>store := Some (content\<lparr>
                              c_results := (c_results content)(issue_type \<mapsto> sample_results),
                              c_last_scan := Some (last_scans(issue_type \<mapsto> sample_last_scan))\<rparr>)\<rparr>)))))"

text \<open>
  \<open>_process_issue_computation\<close> (lines 903-977), in two parts. \<open>compute_results\<close>
  is lines 908-941: the new results and count, written into the local blob.
\<close>

definition compute_results ::
  "issue \<Rightarrow> ('i, 'h) content option \<Rightarrow> ('i, 'h) ctx \<Rightarrow> error + ('i, 'h) content" where
  "compute_results issue_type stored c =
     (if issue_type = ''exact_duplicates'' then
        (case process_exact_duplicates (dataset c) of
           (dup_filehashes, dup_ids, num_duplicates) \<Rightarrow>
             (case stored of
                None \<Rightarrow> Inl TypeError
              | Some content \<Rightarrow>
                (case c_results content issue_type of
                   None \<Rightarrow> Inl KeyError
                 | Some res \<Rightarrow>
                     Inr (content\<lparr>
                       c_results := (c_results content)(issue_type \<mapsto>
                          res\<lparr>dup_filehash := Some dup_filehashes, dup_sample_ids := Some dup_ids\<rparr>),
                       c_counts := (c_counts content)(issue_type \<mapsto> num_duplicates)\<rparr>))))
      else
        (case FIELD_NAME (tables c) issue_type of
           None \<Rightarrow> Inl KeyError
         | Some field_name \<Rightarrow>
           (case histogram_values (dataset c) field_name of
              Inl e \<Rightarrow> Inl e
            | Inr (counts, edges) \<Rightarrow>
              (case stored of
                 None \<Rightarrow> Inl TypeError
               | Some content \<Rightarrow>
                 (case issue_config (panel c) issue_type of
                    None \<Rightarrow> Inl KeyError
                  | Some cfg \<Rightarrow>
                    (case get_plot_defaults c issue_type (detect_method cfg) of
                       Inl e \<Rightarrow> Inl e
                     | Inr None \<Rightarrow> Inl TypeError
                     | Inr (Some (lower_threshold, upper_threshold)) \<Rightarrow>
                       (case match_count (dataset c) field_name
                               (Some lower_threshold) (Some upper_threshold) of
                          Inl e \<Rightarrow> Inl e
                        | Inr num_issue_samples \<Rightarrow>
                            Inr (content\<lparr>
                              c_results := (c_results content)(issue_type \<mapsto>
                                 \<lparr>r_counts = Some counts, r_edges = Some edges,
                                  dup_filehash = None, dup_sample_ids = None\<rparr>),
                              c_counts := (c_counts content)(issue_type \<mapsto> num_issue_samples)\<rparr>))))))))"

text \<open>
  \<open>process_issue_core\<close> is lines 904-972: everything before the final
  \<open>if not recompute\<close>. Until \<open>store.set\<close> (line 951) nothing is changed, so an error
  of \<open>compute_results\<close> leaves the context as it was.
\<close>

definition process_issue_core :: "issue \<Rightarrow> ('i, 'h) ctx \<Rightarrow> (error + unit) \<times> ('i, 'h) ctx" where
  "process_issue_core issue_type c =
     (case compute_results issue_type (store c) c of
        Inl e \<Rightarrow> (Inl e, c)
      | Inr content1 \<Rightarrow>
        (let last_scans = (case c_last_scan content1 of None \<Rightarrow> Map.empty | Some m \<Rightarrow> m);
             entry = (case last_scans issue_type of
                        Some (Some r) \<Rightarrow> r
                      | _ \<Rightarrow> \<lparr>timestamp = None, dataset_size = None\<rparr>);
             entry' = entry\<lparr>timestamp := Some (now c),
                            dataset_size := Some (length (samples (dataset c)))\<rparr>;
             content2 = content1\<lparr>c_last_scan := Some (last_scans(issue_type \<mapsto> Some entry'))\<rparr>;
             c1 = c\<lparr>store := Some content2\<rparr>
         in (case new_samples (panel c1) issue_type of
               None \<Rightarrow> (Inl KeyError, c1)
             | Some (new_count, checked, rescanned) \<Rightarrow>
               (let c2 = (if new_count > 0 \<and> rescanned
                          then c1\<lparr>panel := (panel c1)\<lparr>new_samples :=
                                  (new_samples (panel c1))(issue_type \<mapsto> (0, True, True))\<rparr>\<rparr>
                          else c1);
                    computing_field = (case c_computing content2 of
                                         None \<Rightarrow> None | Some m \<Rightarrow> m issue_type)
                in change_computing_status issue_type False
                     (case computing_field of None \<Rightarrow> [] | Some r \<Rightarrow> execution_type r)
                     (case computing_field of None \<Rightarrow> [] | Some r \<Rightarrow> delegation_run_id r)
                     [] (Some NEEDS_REVIEW) c2))))"

text \<open>
  \<open>navigate_to_screen\<close> (lines 216-271). The callers modelled here pass an issue type
  that is not \<open>None\<close>, so the issue type is one after the parameters are read too. The
  recursive call of line 244 is made only when \<open>recompute\<close> is true, and the callee then
  skips its own navigation: it is \<open>process_issue_core\<close>. \<open>analysis_try\<close> is the body
  of the \<open>try\<close> (lines 243-260); the handler catches ValueError alone.
\<close>

definition analysis_try ::
  "issue \<Rightarrow> bool \<Rightarrow> ('i, 'h) ctx \<Rightarrow> (error + unit) \<times> ('i, 'h) ctx" where
  "analysis_try issue_type recompute =
     seq (\<lambda>c. if recompute then process_issue_core issue_type c else (Inr (), c))
     (seq (\<lambda>c. if issue_type \<in> {''brightness'', ''blurriness'', ''aspect_ratio'',
                                    ''entropy'', ''near_duplicates''}
                then set_hist_defaults c else (Inr (), c))
          (\<lambda>c. if get_issue_status issue_type c \<noteq> REVIEWED
                then change_computing_status issue_type False [] [] [] (Some NEEDS_REVIEW) c
                else (Inr (), c)))"

definition navigate_to_screen ::
  "issue \<Rightarrow> string \<Rightarrow> bool \<Rightarrow> ('i, 'h) ctx \<Rightarrow> (error + unit) \<times> ('i, 'h) ctx" where
  "navigate_to_screen issue_type0 next_screen0 recompute0 c =
     (let issue_type = (case prm_issue_type (params c) of Some i \<Rightarrow> i | None \<Rightarrow> issue_type0);
          next_screen = (case prm_next_screen (params c) of Some n \<Rightarrow> n | None \<Rightarrow> next_screen0);
          recompute = (case prm_recompute (params c) of Some r \<Rightarrow> r | None \<Rightarrow> recompute0);
          c1 = c\<lparr>panel := (panel c)\<lparr>p_issue_type := Some issue_type, screen := next_screen,
                                       first_open := False\<rparr>\<rparr>;
          c2 = (if next_screen = ''home''
                then c1\<lparr>panel := (panel c1)\<lparr>hist_lower_thresh := None, hist_upper_thresh := None,
                                              p_issue_type := None\<rparr>,
                        view := DatasetView\<rparr>
                else c1)
      in if next_screen = ''analysis'' then
           (case analysis_try issue_type recompute c2 of
              (Inl ValueError, c3) \<Rightarrow>
                (case should_reset_issue issue_type c3 of
                   Inl e \<Rightarrow> (Inl e, c3)
                 | Inr True \<Rightarrow>
                     seq (reset_issue issue_type)
                         (\<lambda>c4. (Inr (), c4\<lparr>panel := (panel c4)\<lparr>screen := ''pre_load_compute''\<rparr>\<rparr>)) c3
                 | Inr False \<Rightarrow> (Inl ValueError, c3))
            | (Inl e, c3) \<Rightarrow> (Inl e, c3)
            | (Inr _, c3) \<Rightarrow> change_view issue_type c3)
         else (Inr (), c2))"

definition process_issue_computation ::
  "issue \<Rightarrow> bool \<Rightarrow> ('i, 'h) ctx \<Rightarrow> (error + unit) \<times> ('i, 'h) ctx" where
  "process_issue_computation issue_type recompute =
     seq (process_issue_core issue_type)
         (\<lambda>c. if \<not> recompute then navigate_to_screen issue_type ''analysis'' False c
               else (Inr (), c))"

text \<open>
  \<open>check_computing_status\<close> (lines 1005-1102). A bare \<open>except\<close> catches every
  error. \<open>delegated_branch\<close> is the part after the state of the run has been polled.
\<close>

definition failed_branch :: "issue \<Rightarrow> ('i, 'h) ctx \<Rightarrow> (error + unit) \<times> ('i, 'h) ctx" where
  "failed_branch issue_type =
     seq (change_computing_status issue_type False [] [] [] (Some NOT_COMPUTED))
       (\<lambda>c. case process_issue_computation issue_type False c of
          (Inl e, c1) \<Rightarrow>
            (let c2 = c1\<lparr>panel := (panel c1)\<lparr>alert := ''computation_failed_'' @ issue_type\<rparr>\<rparr>
             in if p_issue_type (panel c2) = Some issue_type
                then navigate_to_screen issue_type ''home'' False c2
                else (Inr (), c2))
        | (Inr _, c1) \<Rightarrow> (Inr (), c1))"

definition completed_branch ::
  "issue \<Rightarrow> string \<Rightarrow> ('i, 'h) ctx \<Rightarrow> (error + unit) \<times> ('i, 'h) ctx" where
  "completed_branch issue_type delegated_state =
     seq (\<lambda>c. change_computing_status issue_type False ''delegate_execution''
                 (py_str (prm_run_id (params c))) (py_lower delegated_state) (Some NEEDS_REVIEW) c)
    (seq (process_issue_computation issue_type True)
         (\<lambda>c. if p_issue_type (panel c) = Some issue_type \<and> screen (panel c) = ''pre_load_compute''
               then navigate_to_screen issue_type ''analysis'' False c
               else (Inr (), c)))"

definition check_computing_status :: "('i, 'h) ctx \<Rightarrow> (error + unit) \<times> ('i, 'h) ctx" where
  "check_computing_status c =
     (case prm_issue_type (params c) of
        None \<Rightarrow>
          (Inl (Exception ''check_computing_status issue_type must be valid - got None''), c)
      | Some issue_type \<Rightarrow>
        (case store c of
           None \<Rightarrow> (Inl AttributeError, c)
         | Some content \<Rightarrow>
           (let exec_type = (case c_computing content of
                               None \<Rightarrow> None
                             | Some m \<Rightarrow> (case m issue_type of
                                            None \<Rightarrow> None
                                          | Some r \<Rightarrow> Some (execution_type r)))
            in
            if exec_type \<noteq> Some ''delegate_execution'' then
              (case c_last_scan content of
                 None \<Rightarrow> (Inl KeyError, c)
               | Some last_scans \<Rightarrow>
                 (case last_scans issue_type of
                    None \<Rightarrow> (Inl KeyError, c)
                  | Some None \<Rightarrow> (Inl AttributeError, c)
                  | Some (Some entry) \<Rightarrow>
                    (let (last_scan_timestamp, c1) =
                           (case timestamp entry of
                              Some t \<Rightarrow> (t, c)
                            | None \<Rightarrow>
                                (now c,
                                 c\<lparr>store := Some (content\<lparr>c_last_scan := Some (last_scans(issue_type \<mapsto>
                                        Some (entry\<lparr>timestamp := Some (now c)\<rparr>)))\<rparr>)\<rparr>))
                     in if now c1 > last_scan_timestamp + timedelta_minutes 10
                        then change_computing_status issue_type False [] [] [] (Some NOT_COMPUTED) c1
                        else (Inr (), c1))))
            else
              (case dos_run_state c (prm_run_id (params c)) of
                 Inl e \<Rightarrow> change_computing_status issue_type False [] [] [] (Some NOT_COMPUTED) c
               | Inr delegated_state \<Rightarrow>
                   if delegated_state = Some ''failed'' then failed_branch issue_type c
                   else if delegated_state = Some ''completed''
                   then completed_branch issue_type ''completed'' c
                   else (case delegated_state of
                           None \<Rightarrow> (Inr (), c)
                         | Some st \<Rightarrow>
                             change_computing_status issue_type True ''delegate_execution''
                               (py_str (prm_run_id (params c))) (py_lower st) None c)))))"

text \<open>The status the store holds for an issue type, if any.\<close>

definition store_status :: "('i, 'h) ctx \<Rightarrow> issue \<Rightarrow> status option" where
  "store_status c issue_type =
     (case store c of None \<Rightarrow> None | Some content \<Rightarrow> c_status content issue_type)"

text \<open>The entry the store holds in \<open>computing\<close> for an issue type, if any.\<close>

definition store_computing :: "('i, 'h) ctx \<Rightarrow> issue \<Rightarrow> computing_rec option" where
  "store_computing c issue_type =
     (case store c of
        None \<Rightarrow> None
      | Some content \<Rightarrow> (case c_computing content of None \<Rightarrow> None | Some m \<Rightarrow> m issue_type))"

text \<open>The timestamp of the last scan the store holds for an issue type, if any.\<close>

definition store_timestamp :: "('i, 'h) ctx \<Rightarrow> issue \<Rightarrow> time option" where
  "store_timestamp c issue_type =
     (case store c of
        None \<Rightarrow> None
      | Some content \<Rightarrow>
          (case c_last_scan content of
             None \<Rightarrow> None
           | Some last_scans \<Rightarrow>
               (case last_scans issue_type of
                  Some (Some entry) \<Rightarrow> timestamp entry
                | _ \<Rightarrow> None)))"

text \<open>The entry the panel state holds in \<open>computing\<close> for an issue type, if any.\<close>

definition panel_computing :: "('i, 'h) ctx \<Rightarrow> issue \<Rightarrow> computing_rec option" where
  "panel_computing c issue_type =
     (case p_computing (panel c) of None \<Rightarrow> None | Some m \<Rightarrow> m issue_type)"

section \<open>Example contexts\<close>

text \<open>
  A dataset of six samples with the content hashes \<open>a, a, b, c, c, c\<close>, whose numeric
  fields range over \<open>[0, 100]\<close>, and a dataset with nothing but the listed samples and the
  \<open>filehash\<close> field.
\<close>

definition example_dataset :: "(nat, string) dataset" where
  "example_dataset =
     \<lparr>has_field = (\<lambda>f. f = ''filehash'' \<or> f = ''brightness''),
      samples = [(1, Some ''a''), (2, Some ''a''), (3, Some ''b''),
                 (4, Some ''c''), (5, Some ''c''), (6, Some ''c'')],
      histogram_values = (\<lambda>f. Inr ([3, 2, 1], [0, 25, 50, 100])),
      bounds = (\<lambda>f. Inr (Some 0, Some 100)),
      match_count = (\<lambda>f lower upper. Inr 4),
      exists_count = (\<lambda>f. Inr 6)\<rparr>"

definition filehash_dataset :: "bool \<Rightarrow> (nat \<times> string option) list \<Rightarrow> (nat, string) dataset" where
  "filehash_dataset with_field sample_list =
     \<lparr>has_field = (\<lambda>f. with_field \<and> f = ''filehash''),
      samples = sample_list,
      histogram_values = (\<lambda>f. Inl ValueError),
      bounds = (\<lambda>f. Inl ValueError),
      match_count = (\<lambda>f lower upper. Inl ValueError),
      exists_count = (\<lambda>f. Inl ValueError)\<rparr>"

text \<open>
  A run id as \<open>bson.ObjectId\<close> accepts it: 24 hexadecimal digits.
\<close>

definition example_run_id :: string where
  "example_run_id = ''65f1a2b3c4d5e6f708192a3b''"

text \<open>
  A panel on \<open>example_dataset\<close> whose brightness scan was started at time \<open>0\<close> and is
  marked as computing; the handler runs eleven minutes later, for the issue type
  \<open>brightness\<close> and the run \<open>example_run_id\<close>. The arguments are the saved
  brightness configuration, the execution type of the scan and the answer of the
  delegated-operation service for this run; for any other run id the service raises.
\<close>

definition example_ctx ::
  "config \<Rightarrow> string \<Rightarrow> (error + string option) \<Rightarrow> (nat, string) ctx" where
  "example_ctx cfg exec_type run_state =
     (let computing_map = [''brightness'' \<mapsto>
            \<lparr>is_computing = True, execution_type = exec_type,
             delegation_run_id = example_run_id, delegation_status = []\<rparr>]
      in \<lparr>tables = \<lparr>FIELD_NAME = [''brightness'' \<mapsto> ''brightness''],
                    SAMPLE_STORE_results = Map.empty,
                    SAMPLE_STORE_last_scan = Map.empty\<rparr>,
          params = \<lparr>prm_issue_type = Some ''brightness'', prm_run_id = Some example_run_id,
                    prm_next_screen = None, prm_recompute = None\<rparr>,
          panel = \<lparr>screen = ''home'', p_issue_type = None, alert = [], first_open = False,
                   hist_lower_thresh = None, hist_upper_thresh = None,
                   issue_config = [''brightness'' \<mapsto> cfg],
                   issue_counts = Map.empty,
                   p_computing = Some computing_map,
                   new_samples = [''brightness'' \<mapsto> (0, False, False)]\<rparr>,
          store = Some \<lparr>c_results = Map.empty, c_counts = Map.empty,
                        c_current_counts = Map.empty,
                        c_status = [''brightness'' \<mapsto> COMPUTING],
                        c_last_scan = Some [''brightness'' \<mapsto>
                           Some \<lparr>timestamp = Some 0, dataset_size = Some 6\<rparr>],
                        c_computing = Some computing_map\<rparr>,
          dataset = example_dataset,
          view = DatasetView,
          now = timedelta_minutes 11,
          dos_run_state = (\<lambda>run_id. if run_id = Some example_run_id then run_state
                                     else Inl (Exception ''InvalidId''))\<rparr>)"


definition percentage_config :: config where
  "percentage_config = \<lparr>cfg_min = Some (1 / 10), cfg_max = Some (9 / 10),
                         detect_method = ''percentage''\<rparr>"

definition no_min_config :: config where
  "no_min_config = \<lparr>cfg_min = None, cfg_max = Some (9 / 10), detect_method = ''percentage''\<rparr>"

section \<open>Results about threshold ranges\<close>

lemma get_threshold_range_lower_out:
  "min_v < lo \<Longrightarrow> max_v \<le> hi \<Longrightarrow> get_threshold_range min_v max_v lo hi = (min_v, lo)"
  by (simp add: get_threshold_range_def)

lemma get_threshold_range_upper_out:
  "hi < max_v \<Longrightarrow> lo \<le> min_v \<Longrightarrow> get_threshold_range min_v max_v lo hi = (hi, max_v)"
  by (simp add: get_threshold_range_def)

text \<open>
  Claim C3, as the code has it. When only the lower side of the requested range is below
  the allowed bounds (\<open>min_v < lower_std_bound\<close> and
  \<open>lower_std_bound \<le> max_v \<le> upper_std_bound\<close>), \<open>get_threshold_range\<close> returns
  the part of the range that lies below the lower bound, \<open>(min_v, lower_std_bound)\<close>: the
  lower endpoint is kept and the upper endpoint is replaced by the bound. Symmetrically,
  when only the upper side is above the bounds it returns \<open>(upper_std_bound, max_v)\<close>.
\<close>

theorem get_threshold_range_one_side_out:
  "(min_v < lo \<and> lo \<le> max_v \<and> max_v \<le> hi
      \<longrightarrow> get_threshold_range min_v max_v lo hi = (min_v, lo))
   \<and> (hi < max_v \<and> lo \<le> min_v \<and> min_v \<le> hi
      \<longrightarrow> get_threshold_range min_v max_v lo hi = (hi, max_v))"
  by (simp add: get_threshold_range_def)

theorem get_threshold_range_one_side_out_witness:
  "((0::real) < 1 \<and> (1::real) \<le> 5 \<and> (5::real) \<le> 10
      \<and> get_threshold_range 0 5 1 10 = (0, 1))
   \<and> ((10::real) < 12 \<and> (1::real) \<le> 5 \<and> (5::real) \<le> 10
      \<and> get_threshold_range 5 12 1 10 = (10, 12))"
  using get_threshold_range_one_side_out [of 0 1 5 10]
        get_threshold_range_one_side_out [of 5 1 12 10]
  by simp

text \<open>
  Claim C3 as the specification words it (lower endpoint clamped to the bound, upper
  endpoint unchanged) fails: for the range \<open>(0, 5)\<close> and the bounds \<open>(1, 10)\<close> only the
  lower side is out of bounds, and the result is \<open>(0, 1)\<close>, not \<open>(1, 5)\<close>; for the range
  \<open>(5, 12)\<close> only the upper side is out, and the result is \<open>(10, 12)\<close>, not \<open>(5, 10)\<close>.
\<close>

theorem get_threshold_range_clamp_counterexample:
  "((0::real) < 1 \<and> (1::real) \<le> 5 \<and> (5::real) \<le> 10
      \<and> get_threshold_range 0 5 1 10 \<noteq> (1, 5))
   \<and> ((10::real) < 12 \<and> (1::real) \<le> 5 \<and> (5::real) \<le> 10
      \<and> get_threshold_range 5 12 1 10 \<noteq> (5, 10))"
  by (simp add: get_threshold_range_def)

text \<open>
  Claim C7, as the code has it. Whenever the allowed bounds are ordered,
  \<open>lower_std_bound \<le> upper_std_bound\<close>, \<open>get_threshold_range\<close> is idempotent: feeding
  its result back in as \<open>(min_v, max_v)\<close> with the same bounds gives the same pair. Nothing
  is assumed about \<open>min_v\<close> and \<open>max_v\<close>.
\<close>

theorem get_threshold_range_idempotent:
  assumes "lo \<le> hi"
  shows "get_threshold_range (fst (get_threshold_range min_v max_v lo hi))
           (snd (get_threshold_range min_v max_v lo hi)) lo hi
         = get_threshold_range min_v max_v lo hi"
proof -
  consider (inside) "lo \<le> min_v" "min_v \<le> hi" "lo \<le> max_v" "max_v \<le> hi"
    | (low) "min_v < lo" "max_v \<le> hi"
    | (high) "hi < max_v" "lo \<le> min_v"
    | (both) "min_v < lo" "hi < max_v"
    | (crossed) "lo \<le> min_v" "max_v \<le> hi" "hi < min_v \<or> max_v < lo"
    by linarith
  then show ?thesis
  proof cases
    case inside
    then show ?thesis by (simp add: get_threshold_range_def)
  next
    case low
    then have "get_threshold_range min_v max_v lo hi = (min_v, lo)"
      by (rule get_threshold_range_lower_out)
    moreover from low assms have "get_threshold_range min_v lo lo hi = (min_v, lo)"
      by (simp add: get_threshold_range_lower_out)
    ultimately show ?thesis by simp
  next
    case high
    then have "get_threshold_range min_v max_v lo hi = (hi, max_v)"
      by (rule get_threshold_range_upper_out)
    moreover from high assms have "get_threshold_range hi max_v lo hi = (hi, max_v)"
      by (simp add: get_threshold_range_upper_out)
    ultimately show ?thesis by simp
  next
    case both
    show ?thesis
    proof (cases "lo - min_v > max_v - hi")
      case True
      with both have "get_threshold_range min_v max_v lo hi = (min_v, lo)"
        by (simp add: get_threshold_range_def)
      moreover from both assms have "get_threshold_range min_v lo lo hi = (min_v, lo)"
        by (simp add: get_threshold_range_lower_out)
      ultimately show ?thesis by simp
    next
      case False
      with both have "get_threshold_range min_v max_v lo hi = (hi, max_v)"
        by (simp add: get_threshold_range_def)
      moreover from both assms have "get_threshold_range hi max_v lo hi = (hi, max_v)"
        by (simp add: get_threshold_range_upper_out)
      ultimately show ?thesis by simp
    qed
  next
    case crossed
    then have "get_threshold_range min_v max_v lo hi = (lo, hi)"
      by (auto simp add: get_threshold_range_def)
    moreover from assms have "get_threshold_range lo hi lo hi = (lo, hi)"
      by (simp add: get_threshold_range_def)
    ultimately show ?thesis by simp
  qed
qed

theorem get_threshold_range_idempotent_witness:
  "(1::real) \<le> 10
   \<and> get_threshold_range (fst (get_threshold_range 0 12 1 10))
        (snd (get_threshold_range 0 12 1 10)) 1 10
     = get_threshold_range 0 12 1 10
   \<and> get_threshold_range 0 12 1 10 = (10, 12)"
proof -
  have h: "(1::real) \<le> 10" by simp
  show ?thesis
    using h get_threshold_range_idempotent [OF h, of 0 12]
    by (simp add: get_threshold_range_def)
qed

text \<open>
  Claim C7 as the specification words it, for all real inputs, fails when the bounds are
  crossed: with \<open>lower_std_bound = 10\<close> and \<open>upper_std_bound = 0\<close> the range \<open>(1, 2)\<close>
  is mapped to \<open>(1, 10)\<close>, and \<open>(1, 10)\<close> is mapped to \<open>(0, 10)\<close>.
\<close>

theorem get_threshold_range_idempotent_counterexample:
  "get_threshold_range (fst (get_threshold_range 1 2 10 0))
     (snd (get_threshold_range 1 2 10 0)) 10 0
   \<noteq> get_threshold_range 1 2 10 0"
  by (simp add: get_threshold_range_def)

section \<open>Results about histogram bucketing\<close>

lemma hist_loop_result:
  "\<forall>i \<in> set idx. i + 1 < length edges \<Longrightarrow>
   hist_loop fadd fdiv idx counts edges lo hi (ins, outs) =
     Inr (ins @ map (\<lambda>i. if lo \<le> fdiv (fadd (edges ! i) (edges ! (i + 1))) 2
                            \<and> fdiv (fadd (edges ! i) (edges ! (i + 1))) 2 \<le> hi
                         then counts ! i else 0) idx,
          outs @ map (\<lambda>i. if lo \<le> fdiv (fadd (edges ! i) (edges ! (i + 1))) 2
                             \<and> fdiv (fadd (edges ! i) (edges ! (i + 1))) 2 \<le> hi
                          then 0 else counts ! i) idx)"
proof (induction idx arbitrary: ins outs)
  case Nil
  then show ?case by simp
next
  case (Cons i idx)
  then have "i + 1 < length edges" and "i < length edges" by simp_all
  moreover from Cons.prems have "\<forall>j \<in> set idx. j + 1 < length edges" by simp
  ultimately show ?case
    using Cons.IH by (simp add: Let_def)
qed

text \<open>
  Claim C10. For a counts list of length \<open>n\<close> and an edges list of length \<open>n + 1\<close>,
  \<open>prepare_histogram_data\<close> raises no error and returns two lists of length \<open>n\<close>; at
  every index the two entries add up to the bin count and one of them is \<open>0\<close>: the bin
  count goes to \<open>in_threshold_counts\<close> when the bin midpoint lies in
  \<open>[lower_thresh, upper_thresh]\<close>, and to \<open>out_of_threshold_counts\<close> otherwise. The
  bin midpoint is the value the code computes for \<open>(edges[i] + edges[i + 1]) / 2\<close> in
  floating point, \<open>fdiv (fadd (edges ! i) (edges ! (i + 1))) 2\<close>, whatever the float
  addition and division are. The order of the two thresholds plays no part, so it is not
  assumed.
\<close>

theorem prepare_histogram_data_split:
  assumes "length edges = length counts + 1"
  shows "\<exists>ins outs.
           prepare_histogram_data fadd fdiv counts edges lower_thresh upper_thresh = Inr (ins, outs)
           \<and> length ins = length counts \<and> length outs = length counts
           \<and> (\<forall>i < length counts.
                 ins ! i + outs ! i = counts ! i
                 \<and> (ins ! i = 0 \<or> outs ! i = 0)
                 \<and> (if lower_thresh \<le> fdiv (fadd (edges ! i) (edges ! (i + 1))) 2
                        \<and> fdiv (fadd (edges ! i) (edges ! (i + 1))) 2 \<le> upper_thresh
                     then ins ! i = counts ! i \<and> outs ! i = 0
                     else ins ! i = 0 \<and> outs ! i = counts ! i))"
proof -
  from assms have "\<forall>i \<in> set [0..<length counts]. i + 1 < length edges" by simp
  then have "prepare_histogram_data fadd fdiv counts edges lower_thresh upper_thresh =
     Inr (map (\<lambda>i. if lower_thresh \<le> fdiv (fadd (edges ! i) (edges ! (i + 1))) 2
                            \<and> fdiv (fadd (edges ! i) (edges ! (i + 1))) 2 \<le> upper_thresh
                         then counts ! i else 0) [0..<length counts],
          map (\<lambda>i. if lower_thresh \<le> fdiv (fadd (edges ! i) (edges ! (i + 1))) 2
                             \<and> fdiv (fadd (edges ! i) (edges ! (i + 1))) 2 \<le> upper_thresh
                          then 0 else counts ! i) [0..<length counts])"
    unfolding prepare_histogram_data_def
    using hist_loop_result [of "[0..<length counts]" edges fadd fdiv counts
                               lower_thresh upper_thresh "[]" "[]"]
    by simp
  then show ?thesis by simp
qed

text \<open>
  On the edges \<open>0, 1, 2, 3\<close> the sums \<open>1, 3, 5\<close> and the midpoints \<open>0.5, 1.5, 2.5\<close> are
  floats, so float addition and division give the exact results there.
\<close>

theorem prepare_histogram_data_split_witness:
  "length [0, 1, 2, 3 :: real] = length [5, 7, 9 :: int] + 1
   \<and> prepare_histogram_data (+) (/) [5, 7, 9] [0, 1, 2, 3] 1 2 = Inr ([0, 7, 0], [5, 0, 9])"
proof -
  have h: "length [0, 1, 2, 3 :: real] = length [5, 7, 9 :: int] + 1" by simp
  have e: "[0..<3] = [0, 1, 2]" by (simp add: upt_rec)
  from prepare_histogram_data_split [OF h, of "(+)" "(/)" 1 2]
  have "\<exists>ins outs. prepare_histogram_data (+) (/) [5, 7, 9] [0, 1, 2, 3] 1 2 = Inr (ins, outs)"
    by blast
  then show ?thesis using h e by (simp add: prepare_histogram_data_def)
qed

section \<open>Results about threshold defaults\<close>

lemma plot_defaults_percentage:
  "plot_defaults (Some a) (Some b) (Some mn) (Some mx) ''percentage'' =
     Inr (Some (if a \<noteq> 0 \<and> b \<noteq> 0 \<and> mn \<le> a \<and> a < mx \<and> mn < b \<and> b \<le> mx then (a, b)
                else (let lo = (if mn + a * (mx - mn) \<le> mx then mn + a * (mx - mn) else mn);
                          hi = (if mn + b * (mx - mn) \<ge> mn then mn + b * (mx - mn) else mx)
                      in if hi < lo then (mn, mn) else (lo, hi))))"
  by (simp add: plot_defaults_def saved_thresholds_def percentage_defaults_def Let_def)

lemma plot_defaults_percentage_None:
  "new_lower = None \<or> new_upper = None \<Longrightarrow>
   plot_defaults new_lower new_upper min_v max_v ''percentage'' = Inl TypeError"
  by (auto simp add: plot_defaults_def saved_thresholds_def percentage_defaults_def Let_def
      split: option.splits)

lemma get_plot_defaults_reads:
  "issue_config (panel c) field = Some cfg \<Longrightarrow>
   FIELD_NAME (tables c) field = Some field_name \<Longrightarrow>
   bounds (dataset c) field_name = Inr (min_v, max_v) \<Longrightarrow>
   get_plot_defaults c field method = plot_defaults (cfg_min cfg) (cfg_max cfg) min_v max_v method"
  by (simp add: get_plot_defaults_def)

text \<open>
  Claim C1, as the code has it. For a field with numeric bounds \<open>min_v\<close>, \<open>max_v\<close>
  and a saved configuration \<open>{min: a, max: b}\<close>, \<open>get_plot_defaults\<close> with the method
  \<open>percentage\<close> first tests whether the saved pair can be reused: when \<open>a\<close> and \<open>b\<close>
  are not zero and \<open>min_v \<le> a < max_v\<close> and \<open>min_v < b \<le> max_v\<close>, the result is the
  saved pair \<open>(a, b)\<close> itself. Only otherwise are the saved values read as fractions of
  the range: \<open>lower = min_v + a * (max_v - min_v)\<close> (or \<open>min_v\<close> when that exceeds
  \<open>max_v\<close>), \<open>upper = min_v + b * (max_v - min_v)\<close> (or \<open>max_v\<close> when that is below
  \<open>min_v\<close>), both \<open>min_v\<close> when \<open>upper < lower\<close>. For the bounds \<open>(0, 100)\<close> and
  the saved \<open>{min: 0.1, max: 0.9}\<close> the first case applies and the result is
  \<open>(0.1, 0.9)\<close>, as the witness shows.
\<close>

theorem get_plot_defaults_percentage:
  assumes "issue_config (panel c) field = Some cfg"
    and "cfg_min cfg = Some a" and "cfg_max cfg = Some b"
    and "FIELD_NAME (tables c) field = Some field_name"
    and "bounds (dataset c) field_name = Inr (Some min_v, Some max_v)"
  shows "get_plot_defaults c field ''percentage'' =
     Inr (Some (if a \<noteq> 0 \<and> b \<noteq> 0 \<and> min_v \<le> a \<and> a < max_v \<and> min_v < b \<and> b \<le> max_v
                then (a, b)
                else (let lower_thresh = (if min_v + a * (max_v - min_v) \<le> max_v
                                          then min_v + a * (max_v - min_v) else min_v);
                          upper_thresh = (if min_v + b * (max_v - min_v) \<ge> min_v
                                          then min_v + b * (max_v - min_v) else max_v)
                      in if upper_thresh < lower_thresh then (min_v, min_v)
                         else (lower_thresh, upper_thresh))))"
  using assms by (simp add: get_plot_defaults_reads plot_defaults_percentage)

lemma example_ctx_reads:
  "issue_config (panel (example_ctx cfg e r)) ''brightness'' = Some cfg"
  "FIELD_NAME (tables (example_ctx cfg e r)) ''brightness'' = Some ''brightness''"
  "bounds (dataset (example_ctx cfg e r)) ''brightness'' = Inr (Some 0, Some 100)"
  by (simp_all add: example_ctx_def example_dataset_def Let_def)

theorem get_plot_defaults_percentage_witness:
  "issue_config (panel (example_ctx percentage_config ''execute'' (Inr None))) ''brightness''
     = Some percentage_config
   \<and> cfg_min percentage_config = Some (1 / 10) \<and> cfg_max percentage_config = Some (9 / 10)
   \<and> FIELD_NAME (tables (example_ctx percentage_config ''execute'' (Inr None))) ''brightness''
     = Some ''brightness''
   \<and> bounds (dataset (example_ctx percentage_config ''execute'' (Inr None))) ''brightness''
     = Inr (Some 0, Some 100)
   \<and> get_plot_defaults (example_ctx percentage_config ''execute'' (Inr None))
        ''brightness'' ''percentage'' = Inr (Some (1 / 10, 9 / 10))"
proof -
  have m: "cfg_min percentage_config = Some (1 / 10)" "cfg_max percentage_config = Some (9 / 10)"
    by (simp_all add: percentage_config_def)
  note r = example_ctx_reads [of percentage_config "''execute''" "Inr None"]
  show ?thesis
    using get_plot_defaults_percentage [OF r(1) m r(2) r(3)] m r
    by simp
qed

text \<open>
  Claim C1 as the specification words it fails: with the bounds \<open>(0, 100)\<close> and the
  saved configuration \<open>{min: 0.1, max: 0.9}\<close>, method \<open>percentage\<close>, the result is
  not \<open>(10, 90)\<close>.
\<close>

theorem get_plot_defaults_percentage_counterexample:
  "issue_config (panel (example_ctx percentage_config ''execute'' (Inr None))) ''brightness''
     = Some \<lparr>cfg_min = Some (1 / 10), cfg_max = Some (9 / 10), detect_method = ''percentage''\<rparr>
   \<and> FIELD_NAME (tables (example_ctx percentage_config ''execute'' (Inr None))) ''brightness''
     = Some ''brightness''
   \<and> bounds (dataset (example_ctx percentage_config ''execute'' (Inr None))) ''brightness''
     = Inr (Some 0, Some 100)
   \<and> get_plot_defaults (example_ctx percentage_config ''execute'' (Inr None))
        ''brightness'' ''percentage'' \<noteq> Inr (Some (10, 90))"
  by (simp add: example_ctx_reads get_plot_defaults_reads [OF example_ctx_reads]
        percentage_config_def plot_defaults_percentage)

text \<open>
  Claim C9. With the method \<open>percentage\<close>, once the configuration, the field name and
  the bounds have been read: when the saved \<open>min\<close> or the saved \<open>max\<close> is \<open>None\<close>
  or absent, the saved pair is not reused and \<open>get_plot_defaults\<close> raises TypeError,
  whatever the bounds are; when both are numbers and the bounds are numbers, it returns a
  pair of thresholds.
\<close>

theorem get_plot_defaults_percentage_total:
  assumes "issue_config (panel c) field = Some cfg"
    and "FIELD_NAME (tables c) field = Some field_name"
    and "bounds (dataset c) field_name = Inr (min_v, max_v)"
  shows "(cfg_min cfg = None \<or> cfg_max cfg = None
            \<longrightarrow> get_plot_defaults c field ''percentage'' = Inl TypeError)
       \<and> (cfg_min cfg \<noteq> None \<and> cfg_max cfg \<noteq> None \<and> min_v \<noteq> None \<and> max_v \<noteq> None
            \<longrightarrow> (\<exists>r. get_plot_defaults c field ''percentage'' = Inr (Some r)))"
proof (intro conjI impI)
  assume "cfg_min cfg = None \<or> cfg_max cfg = None"
  then show "get_plot_defaults c field ''percentage'' = Inl TypeError"
    using assms by (simp add: get_plot_defaults_reads plot_defaults_percentage_None)
next
  assume "cfg_min cfg \<noteq> None \<and> cfg_max cfg \<noteq> None \<and> min_v \<noteq> None \<and> max_v \<noteq> None"
  then obtain a b mn mx where "cfg_min cfg = Some a" "cfg_max cfg = Some b"
      "min_v = Some mn" "max_v = Some mx" by auto
  then show "\<exists>r. get_plot_defaults c field ''percentage'' = Inr (Some r)"
    using assms by (simp add: get_plot_defaults_reads plot_defaults_percentage)
qed

theorem get_plot_defaults_percentage_total_witness:
  "(cfg_min no_min_config = None \<or> cfg_max no_min_config = None)
   \<and> get_plot_defaults (example_ctx no_min_config ''execute'' (Inr None))
        ''brightness'' ''percentage'' = Inl TypeError
   \<and> (cfg_min percentage_config \<noteq> None \<and> cfg_max percentage_config \<noteq> None
        \<and> Some (0::real) \<noteq> None \<and> Some (100::real) \<noteq> None)
   \<and> (\<exists>r. get_plot_defaults (example_ctx percentage_config ''execute'' (Inr None))
        ''brightness'' ''percentage'' = Inr (Some r))"
  using get_plot_defaults_percentage_total
          [OF example_ctx_reads [of no_min_config "''execute''" "Inr None"]]
        get_plot_defaults_percentage_total
          [OF example_ctx_reads [of percentage_config "''execute''" "Inr None"]]
  by (simp add: no_min_config_def percentage_config_def)

section \<open>Results about exact-duplicate grouping\<close>

lemma counter_add_map_of:
  "map_of (counter_add k m) = (map_of m)(k \<mapsto> (case map_of m k of None \<Rightarrow> 1 | Some n \<Rightarrow> n + 1))"
  by (induction m) (auto simp add: fun_eq_iff)

lemma counter_add_keys:
  "map fst (counter_add k m) = (if k \<in> fst ` set m then map fst m else map fst m @ [k])"
  by (induction m) (force+)

lemma counter_add_distinct:
  "distinct (map fst m) \<Longrightarrow> distinct (map fst (counter_add k m))"
  by (simp add: counter_add_keys)

lemma foldl_counter_add:
  "distinct (map fst m) \<Longrightarrow>
   distinct (map fst (foldl (\<lambda>m k. counter_add k m) m xs))
   \<and> map_of (foldl (\<lambda>m k. counter_add k m) m xs) k =
       (if count_list xs k = 0 then map_of m k
        else Some (count_list xs k + (case map_of m k of None \<Rightarrow> 0 | Some n \<Rightarrow> n)))"
proof (induction xs arbitrary: m)
  case Nil
  then show ?case by simp
next
  case (Cons x xs)
  from Cons.prems have d: "distinct (map fst (counter_add x m))"
    by (rule counter_add_distinct)
  show ?case
    using Cons.IH [OF d] by (auto simp add: counter_add_map_of split: option.splits)
qed

lemma Counter_map_of:
  "map_of (Counter xs) k = (if count_list xs k = 0 then None else Some (count_list xs k))"
  using foldl_counter_add [of "[]" xs k] by (simp add: Counter_def)

lemma Counter_distinct: "distinct (map fst (Counter xs))"
  using foldl_counter_add [of "[]" xs] by (simp add: Counter_def)

lemma dup_filehashes_set:
  "set (map fst (filter (\<lambda>(k, v). v > 1) (Counter xs))) = {h. 2 \<le> count_list xs h}"
proof -
  have "(k, v) \<in> set (Counter xs) \<longleftrightarrow> count_list xs k \<noteq> 0 \<and> v = count_list xs k" for k v
    using map_of_eq_Some_iff [OF Counter_distinct, of xs k v]
    by (auto simp add: Counter_map_of split: if_splits)
  then show ?thesis by (auto simp add: image_iff)
qed

lemma dup_filehashes_distinct:
  "distinct (map fst (filter (\<lambda>(k, v). v > 1) (Counter xs)))"
  using Counter_distinct by (rule distinct_map_filter)

lemma append_id_map_of:
  "map_of (append_id k v acc) =
     (map_of acc)(k \<mapsto> (case map_of acc k of None \<Rightarrow> [] | Some vs \<Rightarrow> vs) @ [v])"
  by (induction acc) (auto simp add: fun_eq_iff)

lemma append_id_keys:
  "map fst (append_id k v acc) = (if k \<in> fst ` set acc then map fst acc else map fst acc @ [k])"
  by (induction acc) (force+)

lemma append_id_distinct:
  "distinct (map fst acc) \<Longrightarrow> distinct (map fst (append_id k v acc))"
  by (simp add: append_id_keys)

lemma append_id_sizes:
  "sum_list (map (\<lambda>(k, ids). length ids) (append_id k v acc)) =
     Suc (sum_list (map (\<lambda>(k, ids). length ids) acc))"
  by (induction acc) auto

lemma group_loop_distinct:
  "distinct (map fst acc) \<Longrightarrow> distinct (map fst (group_loop ps D acc))"
  by (induction ps D acc rule: group_loop.induct) (auto simp add: append_id_distinct)

lemma group_loop_map_of:
  "map_of (group_loop ps D acc) h =
     (if h \<in> set D \<and> filter (\<lambda>p. snd p = h) ps \<noteq> []
      then Some ((case map_of acc h of None \<Rightarrow> [] | Some vs \<Rightarrow> vs)
                   @ map fst (filter (\<lambda>p. snd p = h) ps))
      else map_of acc h)"
  by (induction ps D acc rule: group_loop.induct)
     (auto simp add: append_id_map_of split: option.splits)

lemma group_loop_sizes:
  "sum_list (map (\<lambda>(k, ids). length ids) (group_loop ps D acc)) =
     sum_list (map (\<lambda>(k, ids). length ids) acc) + length (filter (\<lambda>p. snd p \<in> set D) ps)"
  by (induction ps D acc rule: group_loop.induct) (auto simp add: append_id_sizes)

lemma append_id_key_set: "fst ` set (append_id k v acc) = insert k (fst ` set acc)"
proof -
  have "set (map fst (append_id k v acc)) = insert k (set (map fst acc))"
    by (auto simp add: append_id_keys)
  then show ?thesis by simp
qed

lemma group_loop_keys:
  "fst ` set (group_loop ps D acc) = fst ` set acc \<union> (set D \<inter> snd ` set ps)"
  by (induction ps D acc rule: group_loop.induct) (auto simp add: append_id_key_set)

lemma count_list_pos_iff: "0 < count_list xs x \<longleftrightarrow> x \<in> set xs"
  by (induction xs) auto


lemma exists_filehash_snd: "snd ` set (exists_filehash xs) = {h. \<exists>i. (i, Some h) \<in> set xs}"
  by (induction xs rule: exists_filehash.induct) auto

lemma exists_filehash_empty: "\<forall>s \<in> set xs. snd s = None \<Longrightarrow> exists_filehash xs = []"
  by (induction xs rule: exists_filehash.induct) auto

lemma exact_duplicates_of_pairs:
  fixes ps :: "('i \<times> 'h) list"
  defines "dups \<equiv> map fst (filter (\<lambda>(k, v). v > 1) (Counter (map snd ps)))"
  defines "groups \<equiv> (if dups \<noteq> [] then group_loop (zip (map fst ps) (map snd ps)) dups [] else [])"
  shows "set dups = {h. 2 \<le> count_list (map snd ps) h}"
    and "distinct (map fst groups)"
    and "fst ` set groups = set dups"
    and "\<forall>h \<in> set dups. map_of groups h = Some (map fst (filter (\<lambda>p. snd p = h) ps))"
    and "sum_list (map (\<lambda>(k, ids). length ids) groups) = length (filter (\<lambda>p. snd p \<in> set dups) ps)"
proof -
  have z: "zip (map fst ps) (map snd ps) = ps" by (simp add: zip_map_fst_snd)
  show d: "set dups = {h. 2 \<le> count_list (map snd ps) h}"
    unfolding dups_def by (rule dup_filehashes_set)
  have sub: "set dups \<subseteq> snd ` set ps"
  proof
    fix h assume "h \<in> set dups"
    with d have "0 < count_list (map snd ps) h" by simp
    then have "h \<in> set (map snd ps)" by (simp add: count_list_pos_iff)
    then show "h \<in> snd ` set ps" by simp
  qed
  have g: "groups = group_loop ps dups []"
  proof (cases "dups = []")
    case True
    have "group_loop ps [] [] = ([] :: ('h \<times> 'i list) list)"
      by (induction ps) auto
    with True show ?thesis by (simp add: groups_def)
  next
    case False
    then show ?thesis by (simp add: groups_def z)
  qed
  show "distinct (map fst groups)"
    unfolding g by (rule group_loop_distinct) simp
  show "fst ` set groups = set dups"
    unfolding g using sub by (auto simp add: group_loop_keys)
  show "\<forall>h \<in> set dups. map_of groups h = Some (map fst (filter (\<lambda>p. snd p = h) ps))"
  proof
    fix h assume h: "h \<in> set dups"
    with sub obtain p where "p \<in> set ps" "snd p = h" by auto
    then have "filter (\<lambda>p. snd p = h) ps \<noteq> []" by (auto simp add: filter_empty_conv)
    with h show "map_of groups h = Some (map fst (filter (\<lambda>p. snd p = h) ps))"
      unfolding g by (simp add: group_loop_map_of)
  qed
  show "sum_list (map (\<lambda>(k, ids). length ids) groups) = length (filter (\<lambda>p. snd p \<in> set dups) ps)"
    unfolding g by (simp add: group_loop_sizes)
qed

lemma process_exact_duplicates_general:
  assumes f: "has_field ds ''filehash''"
  shows "\<exists>dups groups n.
        process_exact_duplicates ds = (dups, groups, n)
        \<and> set dups = {h. 2 \<le> count_list (map snd (exists_filehash (samples ds))) h}
        \<and> distinct (map fst groups)
        \<and> fst ` set groups = set dups
        \<and> (\<forall>h \<in> set dups.
              map_of groups h =
                Some (map fst (filter (\<lambda>p. snd p = h) (exists_filehash (samples ds)))))
        \<and> n = sum_list (map (\<lambda>(k, ids). length ids) groups)
        \<and> n = length (filter (\<lambda>p. snd p \<in> set dups) (exists_filehash (samples ds)))"
proof -
  define ps where "ps = exists_filehash (samples ds)"
  define dups where "dups = map fst (filter (\<lambda>(k, v). v > 1) (Counter (map snd ps)))"
  define groups where
    "groups = (if dups \<noteq> [] then group_loop (zip (map fst ps) (map snd ps)) dups [] else [])"
  have run: "process_exact_duplicates ds =
               (dups, groups, sum_list (map (\<lambda>(k, ids). length ids) groups))"
    using f by (simp add: process_exact_duplicates_def Let_def ps_def dups_def groups_def)
  note facts = exact_duplicates_of_pairs [of ps, folded dups_def, folded groups_def]
  show ?thesis
    unfolding ps_def [symmetric]
    using run facts by blast
qed

lemma process_exact_duplicates_example:
  "process_exact_duplicates example_dataset =
     ([''a'', ''c''], [(''a'', [1, 2]), (''c'', [4, 5, 6])], 5)"
  by code_simp

text \<open>
  Claim C2. On a dataset with the \<open>filehash\<close> field, where the samples that carry a
  hash give the list of (sample id, content hash) pairs \<open>exists_filehash (samples ds)\<close>,
  \<open>_process_exact_duplicates\<close> returns: as duplicate hashes, exactly the hashes that
  occur at least twice; as groups, one entry per duplicate hash, which maps the hash to
  the ids of its samples in encounter order; as count, the sum of the group sizes, which
  is the number of samples with a duplicate hash. For the hashes \<open>a, a, b, c, c, c\<close>
  with the ids \<open>1, ..., 6\<close> (\<open>example_dataset\<close>) the duplicate hash set is
  \<open>{a, c}\<close>, the groups are \<open>a \<mapsto> [1, 2]\<close> and \<open>c \<mapsto> [4, 5, 6]\<close>, and the count
  is \<open>5\<close>.
\<close>

theorem process_exact_duplicates_groups:
  "(has_field ds ''filehash'' \<longrightarrow>
     (\<exists>dups groups n.
        process_exact_duplicates ds = (dups, groups, n)
        \<and> set dups = {h. 2 \<le> count_list (map snd (exists_filehash (samples ds))) h}
        \<and> distinct (map fst groups)
        \<and> fst ` set groups = set dups
        \<and> (\<forall>h \<in> set dups.
              map_of groups h =
                Some (map fst (filter (\<lambda>p. snd p = h) (exists_filehash (samples ds)))))
        \<and> n = sum_list (map (\<lambda>(k, ids). length ids) groups)
        \<and> n = length (filter (\<lambda>p. snd p \<in> set dups) (exists_filehash (samples ds)))))
   \<and> (\<exists>dups. process_exact_duplicates example_dataset =
                 (dups, [(''a'', [1, 2]), (''c'', [4, 5, 6])], 5)
              \<and> set dups = {''a'', ''c''})"
  using process_exact_duplicates_general [of ds] process_exact_duplicates_example
  by simp

theorem process_exact_duplicates_groups_witness:
  "has_field example_dataset ''filehash''
   \<and> process_exact_duplicates example_dataset =
       ([''a'', ''c''], [(''a'', [1, 2]), (''c'', [4, 5, 6])], 5)"
proof -
  have f: "has_field example_dataset ''filehash''"
    by (simp add: example_dataset_def)
  have e: "process_exact_duplicates example_dataset =
             ([''a'', ''c''], [(''a'', [1, 2]), (''c'', [4, 5, 6])], 5)"
    by code_simp
  have "\<exists>dups groups n. process_exact_duplicates example_dataset = (dups, groups, n)
          \<and> n = sum_list (map (\<lambda>(k, ids). length ids) groups)"
    using process_exact_duplicates_groups [of example_dataset] f
    by (elim conjE) (erule (1) impE, elim exE conjE, intro exI conjI, assumption+)
  with f e show ?thesis by simp
qed

text \<open>
  Claim C8. On a dataset without the \<open>filehash\<close> field, or on one where no sample
  carries a hash (an empty dataset among them), \<open>_process_exact_duplicates\<close> returns
  \<open>([], [], 0)\<close>. The function has no error outcome: nothing it does can raise.
\<close>

theorem process_exact_duplicates_empty:
  "\<not> has_field ds ''filehash'' \<or> (\<forall>s \<in> set (samples ds). snd s = None)
   \<Longrightarrow> process_exact_duplicates ds = ([], [], 0)"
  by (auto simp add: process_exact_duplicates_def exists_filehash_empty Counter_def)

theorem process_exact_duplicates_empty_witness:
  "(\<not> has_field (filehash_dataset False [(1, Some ''a''), (2, Some ''a'')]) ''filehash''
    \<and> process_exact_duplicates (filehash_dataset False [(1, Some ''a''), (2, Some ''a'')]) = ([], [], 0))
   \<and> (samples (filehash_dataset True [(1, None), (2, None)]) = [(1, None), (2, None)]
    \<and> process_exact_duplicates (filehash_dataset True [(1, None), (2, None)]) = ([], [], 0))
   \<and> process_exact_duplicates (filehash_dataset True []) = ([], [], 0)"
  using process_exact_duplicates_empty [of "filehash_dataset False [(1, Some ''a''), (2, Some ''a'')]"]
        process_exact_duplicates_empty [of "filehash_dataset True [(1, None), (2, None)]"]
        process_exact_duplicates_empty [of "filehash_dataset True []"]
  by (simp add: filehash_dataset_def)

section \<open>Results about the computing status\<close>

lemma change_computing_status_ok:
  assumes "p_computing (panel c) = Some pm" and "store c = Some content"
  shows "\<exists>c'. change_computing_status i a b r d st c = (Inr (), c')
           \<and> store_status c' i = (case st of None \<Rightarrow> c_status content i | Some s \<Rightarrow> Some s)
           \<and> store_computing c' i =
                Some \<lparr>is_computing = a, execution_type = b,
                      delegation_run_id = r, delegation_status = d\<rparr>
           \<and> p_computing (panel c') =
                Some (pm(i \<mapsto> \<lparr>is_computing = a, execution_type = b,
                                delegation_run_id = r, delegation_status = d\<rparr>))"
  using assms
  by (cases st) (simp_all add: change_computing_status_def store_status_def store_computing_def Let_def)

lemma change_computing_status_frame:
  assumes "change_computing_status i a b r d st c = (res, c')"
  shows "dataset c' = dataset c" and "tables c' = tables c" and "params c' = params c"
    and "now c' = now c" and "dos_run_state c' = dos_run_state c" and "view c' = view c"
    and "issue_config (panel c') = issue_config (panel c)"
    and "hist_lower_thresh (panel c') = hist_lower_thresh (panel c)"
    and "hist_upper_thresh (panel c') = hist_upper_thresh (panel c)"
    and "p_issue_type (panel c') = p_issue_type (panel c)"
    and "screen (panel c') = screen (panel c)"
    and "new_samples (panel c') = new_samples (panel c)"
    and "res \<noteq> Inl ValueError"
  using assms
  by (auto simp add: change_computing_status_def Let_def split: option.splits)

text \<open>
  Claim C5. For an issue type whose \<open>computing\<close> entry in the store has an execution
  type other than \<open>delegate_execution\<close> (or is missing) and whose last scan has the
  timestamp \<open>t\<close>: when \<open>check_computing_status\<close> runs at a time later than \<open>t\<close> plus
  10 minutes it raises no error, sets the status of the issue type to \<open>NOT_COMPUTED\<close>
  and sets \<open>is_computing\<close> to false, in the store and in the panel state. The panel
  state is taken to hold a \<open>computing\<close> dictionary, as it does once the panel is
  loaded. The status before the call plays no part, so \<open>COMPUTING\<close> is not assumed.
\<close>

theorem check_computing_status_immediate_timeout:
  assumes "prm_issue_type (params c) = Some i"
    and "map_option execution_type (store_computing c i) \<noteq> Some ''delegate_execution''"
    and "store_timestamp c i = Some t"
    and "now c > t + timedelta_minutes 10"
    and "p_computing (panel c) = Some pm"
  shows "\<exists>c'. check_computing_status c = (Inr (), c')
           \<and> store_status c' i = Some NOT_COMPUTED
           \<and> map_option is_computing (store_computing c' i) = Some False
           \<and> map_option is_computing (panel_computing c' i) = Some False"
proof -
  from assms(3) obtain content last_scans entry where
    s: "store c = Some content" and l: "c_last_scan content = Some last_scans"
    and en: "last_scans i = Some (Some entry)" and ts: "timestamp entry = Some t"
    by (auto simp add: store_timestamp_def split: option.splits)
  from s assms(2) have e:
    "(case c_computing content of None \<Rightarrow> None
      | Some m \<Rightarrow> (case m i of None \<Rightarrow> None | Some r \<Rightarrow> Some (execution_type r)))
       \<noteq> Some ''delegate_execution''"
    by (auto simp add: store_computing_def split: option.splits)
  from assms(1,4) s l en ts e have run: "check_computing_status c =
      change_computing_status i False [] [] [] (Some NOT_COMPUTED) c"
    by (simp add: check_computing_status_def Let_def)
  from change_computing_status_ok [OF assms(5) s, of i False "[]" "[]" "[]" "Some NOT_COMPUTED"]
  show ?thesis unfolding run by (auto simp add: panel_computing_def)
qed



lemma example_ctx_delegated:
  "prm_issue_type (params (example_ctx cfg ''delegate_execution'' rs)) = Some ''brightness''"
  "map_option execution_type (store_computing (example_ctx cfg ''delegate_execution'' rs) ''brightness'')
     = Some ''delegate_execution''"
  "dos_run_state (example_ctx cfg ''delegate_execution'' rs)
     (prm_run_id (params (example_ctx cfg ''delegate_execution'' rs))) = rs"
  "store_status (example_ctx cfg e rs) ''brightness'' = Some COMPUTING"
  "now (example_ctx cfg e rs) = timedelta_minutes 11"
  by (simp_all add: example_ctx_def store_computing_def store_status_def Let_def)

lemma example_ctx_panel_computing:
  "p_computing (panel (example_ctx cfg e rs)) =
     Some [''brightness'' \<mapsto> \<lparr>is_computing = True, execution_type = e,
             delegation_run_id = example_run_id, delegation_status = []\<rparr>]"
  by (simp add: example_ctx_def Let_def)



lemma example_ctx_immediate:
  "prm_issue_type (params (example_ctx cfg e rs)) = Some ''brightness''"
  "map_option execution_type (store_computing (example_ctx cfg e rs) ''brightness'') = Some e"
  "store_timestamp (example_ctx cfg e rs) ''brightness'' = Some 0"
  by (simp_all add: example_ctx_def store_computing_def store_timestamp_def Let_def)





theorem check_computing_status_immediate_timeout_witness:
  "map_option execution_type
     (store_computing (example_ctx percentage_config ''execute'' (Inr None)) ''brightness'')
       \<noteq> Some ''delegate_execution''
   \<and> store_timestamp (example_ctx percentage_config ''execute'' (Inr None)) ''brightness'' = Some 0
   \<and> now (example_ctx percentage_config ''execute'' (Inr None)) > 0 + timedelta_minutes 10
   \<and> store_status (example_ctx percentage_config ''execute'' (Inr None)) ''brightness''
        = Some COMPUTING
   \<and> fst (check_computing_status (example_ctx percentage_config ''execute'' (Inr None))) = Inr ()
   \<and> store_status (snd (check_computing_status (example_ctx percentage_config ''execute'' (Inr None))))
        ''brightness'' = Some NOT_COMPUTED
   \<and> map_option is_computing
        (store_computing (snd (check_computing_status (example_ctx percentage_config ''execute'' (Inr None))))
           ''brightness'') = Some False
   \<and> map_option is_computing
        (panel_computing (snd (check_computing_status (example_ctx percentage_config ''execute'' (Inr None))))
           ''brightness'') = Some False"
proof -
  have a: "map_option execution_type
     (store_computing (example_ctx percentage_config ''execute'' (Inr None)) ''brightness'')
       \<noteq> Some ''delegate_execution''"
    by (simp add: example_ctx_immediate)
  have b: "now (example_ctx percentage_config ''execute'' (Inr None)) > 0 + timedelta_minutes 10"
    by (simp add: example_ctx_delegated timedelta_minutes_def)
  from check_computing_status_immediate_timeout
         [OF example_ctx_immediate(1) a example_ctx_immediate(3) b example_ctx_panel_computing]
  show ?thesis using a b by (auto simp add: example_ctx_delegated example_ctx_immediate)
qed

lemma get_plot_defaults_cong:
  "dataset c = dataset c0 \<Longrightarrow> tables c = tables c0 \<Longrightarrow>
   issue_config (panel c) = issue_config (panel c0) \<Longrightarrow>
   get_plot_defaults c = get_plot_defaults c0"
  by (intro ext) (auto simp add: get_plot_defaults_def split: option.splits sum.splits)

lemma compute_results_no_ValueError:
  assumes "compute_results i st0 c0 = Inr x"
    and "dataset c = dataset c0" and "tables c = tables c0"
    and "issue_config (panel c) = issue_config (panel c0)"
  shows "compute_results i st c \<noteq> Inl ValueError"
proof (cases "i = ''exact_duplicates''")
  case True
  then show ?thesis
    by (simp add: compute_results_def split: prod.splits option.splits)
next
  case False
  from assms(2-4) have g: "get_plot_defaults c = get_plot_defaults c0"
    by (rule get_plot_defaults_cong)
  from assms(1) False show ?thesis
    by (auto simp add: compute_results_def g assms(2-4)
             split: prod.splits option.splits sum.splits)
qed

lemma compute_results_plot_defaults:
  assumes "compute_results i st0 c0 = Inr x" and "i \<noteq> ''exact_duplicates''"
  shows "\<exists>cfg r. issue_config (panel c0) i = Some cfg
           \<and> get_plot_defaults c0 i (detect_method cfg) = Inr (Some r)"
  using assms
  by (auto simp add: compute_results_def split: prod.splits option.splits sum.splits)

lemma change_computing_status_snd:
  "dataset (snd (change_computing_status i a b r d st c)) = dataset c"
  "tables (snd (change_computing_status i a b r d st c)) = tables c"
  "params (snd (change_computing_status i a b r d st c)) = params c"
  "issue_config (panel (snd (change_computing_status i a b r d st c))) = issue_config (panel c)"
  "p_issue_type (panel (snd (change_computing_status i a b r d st c))) = p_issue_type (panel c)"
  "screen (panel (snd (change_computing_status i a b r d st c))) = screen (panel c)"
  by (simp_all add: change_computing_status_def Let_def split: option.splits)

lemma process_issue_core_snd:
  "dataset (snd (process_issue_core i c)) = dataset c"
  "tables (snd (process_issue_core i c)) = tables c"
  "params (snd (process_issue_core i c)) = params c"
  "issue_config (panel (snd (process_issue_core i c))) = issue_config (panel c)"
  "p_issue_type (panel (snd (process_issue_core i c))) = p_issue_type (panel c)"
  "screen (panel (snd (process_issue_core i c))) = screen (panel c)"
  by (simp_all add: process_issue_core_def Let_def change_computing_status_snd
        split: sum.splits option.splits prod.splits)

lemma change_computing_status_fst:
  "fst (change_computing_status i a b r d (Some s) c) = Inr u \<Longrightarrow>
   store_status (snd (change_computing_status i a b r d (Some s) c)) i = Some s"
  by (auto simp add: change_computing_status_def store_status_def Let_def split: option.splits)

lemma process_issue_core_status:
  "fst (process_issue_core i c) = Inr u \<Longrightarrow>
   store_status (snd (process_issue_core i c)) i = Some NEEDS_REVIEW"
  by (auto simp add: process_issue_core_def Let_def change_computing_status_fst
        split: sum.splits option.splits prod.splits)

lemma process_issue_core_computed:
  "fst (process_issue_core i c) = Inr u \<Longrightarrow> \<exists>x. compute_results i (store c) c = Inr x"
  by (auto simp add: process_issue_core_def split: sum.splits)

lemma change_computing_status_no_ValueError:
  "fst (change_computing_status i a b r d st c) \<noteq> Inl ValueError"
  using change_computing_status_frame(13) [of i a b r d st c] by (metis prod.collapse)

lemma process_issue_core_no_ValueError:
  assumes "compute_results i st0 c0 = Inr x"
    and "dataset c = dataset c0" and "tables c = tables c0"
    and "issue_config (panel c) = issue_config (panel c0)"
  shows "fst (process_issue_core i c) \<noteq> Inl ValueError"
  using compute_results_no_ValueError [OF assms, of "store c"]
  by (auto simp add: process_issue_core_def Let_def change_computing_status_no_ValueError
           split: sum.splits option.splits prod.splits if_splits)

lemma seq_Inr: "fst (m s) = Inr u \<Longrightarrow> seq m k s = k (snd (m s))"
  by (cases "m s") (simp add: seq_def)

lemma seq_Inl: "fst (m s) = Inl e \<Longrightarrow> seq m k s = (Inl e, snd (m s))"
  by (cases "m s") (simp add: seq_def)

lemma set_hist_defaults_snd:
  "store (snd (set_hist_defaults c)) = store c"
  "dataset (snd (set_hist_defaults c)) = dataset c"
  "tables (snd (set_hist_defaults c)) = tables c"
  "params (snd (set_hist_defaults c)) = params c"
  "issue_config (panel (snd (set_hist_defaults c))) = issue_config (panel c)"
  by (simp_all add: set_hist_defaults_def split: option.splits sum.splits prod.splits)

lemma set_hist_defaults_no_ValueError:
  assumes "p_issue_type (panel c) = Some i"
    and "issue_config (panel c) i = Some cfg"
    and "get_plot_defaults c i (detect_method cfg) = Inr (Some r)"
  shows "fst (set_hist_defaults c) \<noteq> Inl ValueError"
  using assms by (cases r) (simp add: set_hist_defaults_def)

lemma get_issue_status_store_status:
  "store_status c i = Some s \<Longrightarrow> get_issue_status i c = s"
  by (auto simp add: store_status_def get_issue_status_def split: option.splits)

lemma change_view_status:
  assumes "store_status c i = Some s" and "s \<noteq> NOT_COMPUTED"
  shows "store_status (snd (change_view i c)) i = Some s"
proof -
  from assms(1) obtain content0 where st: "store c = Some content0" "c_status content0 i = Some s"
    by (auto simp add: store_status_def split: option.splits)
  show ?thesis
  proof (cases "FIELD_NAME (tables c) i")
    case None
    then show ?thesis using assms(1) by (simp add: change_view_def)
  next
    case (Some field)
    show ?thesis
      unfolding change_view_def
      using st assms(2)
      by (auto simp add: Some Let_def store_status_def
            split: option.split sum.split)
  qed
qed


lemma analysis_try_result:
  fixes c :: "('i, 'h) ctx"
  assumes cr: "compute_results i st0 c0 = Inr x"
    and same: "dataset c = dataset c0" "tables c = tables c0"
              "issue_config (panel c) = issue_config (panel c0)"
    and p: "p_issue_type (panel c) = Some i"
    and s: "store_status c i = Some NEEDS_REVIEW"
  shows "fst (analysis_try i rc c) \<noteq> Inl ValueError"
    and "fst (analysis_try i rc c) = Inr u \<longrightarrow>
           store_status (snd (analysis_try i rc c)) i = Some NEEDS_REVIEW"
proof -
  define m1 :: "('i, 'h) ctx \<Rightarrow> (error + unit) \<times> ('i, 'h) ctx"
    where "m1 = (\<lambda>c. if rc then process_issue_core i c else (Inr (), c))"
  define m2 :: "('i, 'h) ctx \<Rightarrow> (error + unit) \<times> ('i, 'h) ctx"
    where "m2 = (\<lambda>c. if i \<in> {''brightness'', ''blurriness'', ''aspect_ratio'',
                                    ''entropy'', ''near_duplicates''}
                then set_hist_defaults c else (Inr (), c))"
  define m3 :: "('i, 'h) ctx \<Rightarrow> (error + unit) \<times> ('i, 'h) ctx"
    where "m3 = (\<lambda>c. if get_issue_status i c \<noteq> REVIEWED
                then change_computing_status i False [] [] [] (Some NEEDS_REVIEW) c
                else (Inr (), c))"
  have at: "analysis_try i rc = seq m1 (seq m2 m3)"
    by (simp add: analysis_try_def m1_def m2_def m3_def)
  have m1_no: "fst (m1 c) \<noteq> Inl ValueError"
    using process_issue_core_no_ValueError [OF cr same] by (simp add: m1_def)
  define c1 where "c1 = snd (m1 c)"
  have c1_same: "dataset c1 = dataset c0" "tables c1 = tables c0"
       "issue_config (panel c1) = issue_config (panel c0)" "p_issue_type (panel c1) = Some i"
    using same p by (simp_all add: c1_def m1_def process_issue_core_snd)
  have c1_status: "store_status c1 i = Some NEEDS_REVIEW" if "fst (m1 c) = Inr v" for v
    using that s by (auto simp add: c1_def m1_def process_issue_core_status split: if_splits)
  have m2_no: "fst (m2 c1) \<noteq> Inl ValueError"
  proof (cases "i \<in> {''brightness'', ''blurriness'', ''aspect_ratio'',
                                    ''entropy'', ''near_duplicates''}")
    case True
    then have "i \<noteq> ''exact_duplicates''" by auto
    from compute_results_plot_defaults [OF cr this]
    obtain cfg r where cfg: "issue_config (panel c0) i = Some cfg"
       "get_plot_defaults c0 i (detect_method cfg) = Inr (Some r)" by blast
    have "get_plot_defaults c1 = get_plot_defaults c0"
      using c1_same(1-3) by (rule get_plot_defaults_cong)
    with cfg c1_same have "fst (set_hist_defaults c1) \<noteq> Inl ValueError"
      by (intro set_hist_defaults_no_ValueError [of c1 i cfg r]) simp_all
    with True show ?thesis by (simp add: m2_def)
  next
    case False
    then show ?thesis by (simp add: m2_def)
  qed
  define c2 where "c2 = snd (m2 c1)"
  have c2_store: "store_status c2 i = store_status c1 i"
    by (simp add: c2_def m2_def store_status_def set_hist_defaults_snd)
  have m3_no: "fst (m3 c2) \<noteq> Inl ValueError"
    by (simp add: m3_def change_computing_status_no_ValueError)
  have m3_status: "store_status (snd (m3 c2)) i = Some NEEDS_REVIEW"
    if "store_status c2 i = Some NEEDS_REVIEW" "fst (m3 c2) = Inr v" for v
    using that get_issue_status_store_status [OF that(1)]
    by (simp add: m3_def change_computing_status_fst)
  show "fst (analysis_try i rc c) \<noteq> Inl ValueError"
  proof (cases "fst (m1 c)")
    case (Inl e)
    with m1_no show ?thesis
      using seq_Inl [of m1 c e "seq m2 m3"] by (simp add: at)
  next
    case (Inr v)
    note r1 = this
    have e1: "analysis_try i rc c = seq m2 m3 c1"
      using seq_Inr [of m1 c v "seq m2 m3"] r1 by (simp add: at c1_def)
    show ?thesis
    proof (cases "fst (m2 c1)")
      case (Inl e)
      with m2_no show ?thesis
        using seq_Inl [of m2 c1 e m3] by (simp add: e1)
    next
      case (Inr w)
      have "analysis_try i rc c = m3 c2"
        using seq_Inr [of m2 c1 w m3] Inr by (simp add: e1 c2_def)
      with m3_no show ?thesis by simp
    qed
  qed
  show "fst (analysis_try i rc c) = Inr u \<longrightarrow>
           store_status (snd (analysis_try i rc c)) i = Some NEEDS_REVIEW"
  proof (cases "fst (m1 c)")
    case (Inl e)
    then show ?thesis
      using seq_Inl [of m1 c e "seq m2 m3"] by (simp add: at)
  next
    case (Inr v)
    note r1 = this
    have e1: "analysis_try i rc c = seq m2 m3 c1"
      using seq_Inr [of m1 c v "seq m2 m3"] r1 by (simp add: at c1_def)
    show ?thesis
    proof (cases "fst (m2 c1)")
      case (Inl e)
      then show ?thesis
        using seq_Inl [of m2 c1 e m3] by (simp add: e1)
    next
      case (Inr w)
      have e: "analysis_try i rc c = m3 c2"
        using seq_Inr [of m2 c1 w m3] Inr by (simp add: e1 c2_def)
      have "store_status c2 i = Some NEEDS_REVIEW"
        using c2_store c1_status [OF r1] by simp
      then show ?thesis
        unfolding e using m3_status by (cases u) auto
    qed
  qed
qed

lemma navigate_to_screen_status:
  fixes c :: "('i, 'h) ctx"
  assumes cr: "compute_results i st0 c0 = Inr x"
    and same: "dataset c = dataset c0" "tables c = tables c0"
              "issue_config (panel c) = issue_config (panel c0)"
    and s: "store_status c i = Some NEEDS_REVIEW"
    and prm: "prm_issue_type (params c) = Some i"
    and ok: "fst (navigate_to_screen i ns rc0 c) = Inr u"
  shows "store_status (snd (navigate_to_screen i ns rc0 c)) i = Some NEEDS_REVIEW"
proof -
  define next_screen where
    "next_screen = (case prm_next_screen (params c) of Some n \<Rightarrow> n | None \<Rightarrow> ns)"
  define recompute where
    "recompute = (case prm_recompute (params c) of Some r \<Rightarrow> r | None \<Rightarrow> rc0)"
  define c1 where
    "c1 = c\<lparr>panel := (panel c)\<lparr>p_issue_type := Some i, screen := next_screen,
                                   first_open := False\<rparr>\<rparr>"
  show ?thesis
  proof (cases "next_screen = ''analysis''")
    case False
    then have "store (snd (navigate_to_screen i ns rc0 c)) = store c"
      by (simp add: navigate_to_screen_def Let_def prm next_screen_def)
    with s show ?thesis by (simp add: store_status_def)
  next
    case True
    have c1_facts: "dataset c1 = dataset c0" "tables c1 = tables c0"
        "issue_config (panel c1) = issue_config (panel c0)"
        "p_issue_type (panel c1) = Some i" "store_status c1 i = Some NEEDS_REVIEW"
      using same s by (simp_all add: c1_def store_status_def)
    note at = analysis_try_result [OF cr c1_facts, of recompute]
    obtain r c3 where a: "analysis_try i recompute c1 = (r, c3)"
      by (cases "analysis_try i recompute c1")
    have nav: "navigate_to_screen i ns rc0 c =
        (case (r, c3) of
              (Inl ValueError, c3) \<Rightarrow>
                (case should_reset_issue i c3 of
                   Inl e \<Rightarrow> (Inl e, c3)
                 | Inr True \<Rightarrow>
                     seq (reset_issue i)
                         (\<lambda>c4. (Inr (), c4\<lparr>panel := (panel c4)\<lparr>screen := ''pre_load_compute''\<rparr>\<rparr>)) c3
                 | Inr False \<Rightarrow> (Inl ValueError, c3))
            | (Inl e, c3) \<Rightarrow> (Inl e, c3)
            | (Inr _, c3) \<Rightarrow> change_view i c3)"
    proof -
      have c1eq: "c1 = c\<lparr>panel := (panel c)\<lparr>p_issue_type := Some i, screen := ''analysis'',
                                   first_open := False\<rparr>\<rparr>"
        by (simp add: c1_def True)
      show ?thesis
        using True a [unfolded c1eq]
        by (simp add: navigate_to_screen_def Let_def prm
              next_screen_def [symmetric] recompute_def [symmetric])
    qed
    from at(1) a have nv: "r \<noteq> Inl ValueError" by simp
    show ?thesis
    proof (cases r)
      case (Inl e)
      with nv have "e \<noteq> ValueError" by simp
      with Inl have "navigate_to_screen i ns rc0 c = (Inl e, c3)"
        unfolding nav by (cases e) simp_all
      with ok show ?thesis by simp
    next
      case (Inr v)
      then have n: "navigate_to_screen i ns rc0 c = change_view i c3"
        unfolding nav by simp
      from at(2) [of v] a Inr have "store_status c3 i = Some NEEDS_REVIEW" by simp
      then show ?thesis
        unfolding n by (rule change_view_status) simp
    qed
  qed
qed

text \<open>
  Claim C6. For a delegated run that \<open>check_computing_status\<close> polls in the state
  \<open>failed\<close>: when the reset of the status (which leaves the context \<open>c1\<close>) and then the
  local recomputation \<open>_process_issue_computation\<close> (which leaves the context \<open>c2\<close>)
  both return without an error, the handler returns without an error, leaves \<open>c2\<close>, and
  the status the store holds for the issue type is \<open>NEEDS_REVIEW\<close>.
\<close>

theorem check_computing_status_failed_recovery:
  fixes c :: "('i, 'h) ctx"
  assumes prm: "prm_issue_type (params c) = Some i"
    and ex: "map_option execution_type (store_computing c i) = Some ''delegate_execution''"
    and dos: "dos_run_state c (prm_run_id (params c)) = Inr (Some ''failed'')"
    and reset: "change_computing_status i False [] [] [] (Some NOT_COMPUTED) c = (Inr (), c1)"
    and fallback: "process_issue_computation i False c1 = (Inr (), c2)"
  shows "check_computing_status c = (Inr (), c2) \<and> store_status c2 i = Some NEEDS_REVIEW"
proof
  from ex obtain content where s: "store c = Some content"
    by (auto simp add: store_computing_def split: option.splits)
  with ex have e:
    "(case c_computing content of None \<Rightarrow> None
      | Some m \<Rightarrow> (case m i of None \<Rightarrow> None | Some r \<Rightarrow> Some (execution_type r)))
       = Some ''delegate_execution''"
    by (auto simp add: store_computing_def split: option.splits)
  from prm s e dos have "check_computing_status c = failed_branch i c"
    by (simp add: check_computing_status_def Let_def)
  also have "\<dots> = (Inr (), c2)"
    using reset fallback by (simp add: failed_branch_def seq_def)
  finally show "check_computing_status c = (Inr (), c2)" .
next
  define core where "core = process_issue_core i c1"
  have pic: "process_issue_computation i False c1 =
      seq (process_issue_core i) (\<lambda>c. navigate_to_screen i ''analysis'' False c) c1"
    by (simp add: process_issue_computation_def)
  have core_ok: "fst (process_issue_core i c1) = Inr ()"
  proof (cases "fst (process_issue_core i c1)")
    case (Inl e)
    from seq_Inl [of "process_issue_core i" c1 e "\<lambda>c. navigate_to_screen i ''analysis'' False c"] Inl
    show ?thesis using fallback by (simp add: pic)
  next
    case (Inr v)
    then show ?thesis by simp
  qed
  define c1a where "c1a = snd (process_issue_core i c1)"
  have nav: "navigate_to_screen i ''analysis'' False c1a = (Inr (), c2)"
    using seq_Inr [of "process_issue_core i" c1 "()" "\<lambda>c. navigate_to_screen i ''analysis'' False c"]
          core_ok fallback
    by (simp add: pic c1a_def)
  from process_issue_core_computed [OF core_ok]
  obtain x where cr: "compute_results i (store c1) c1 = Inr x" by blast
  have same: "dataset c1a = dataset c1" "tables c1a = tables c1"
             "issue_config (panel c1a) = issue_config (panel c1)"
    by (simp_all add: c1a_def process_issue_core_snd)
  have st: "store_status c1a i = Some NEEDS_REVIEW"
    unfolding c1a_def using core_ok by (rule process_issue_core_status)
  have "params c1a = params c"
    using change_computing_status_frame(3) [OF reset]
    by (simp add: c1a_def process_issue_core_snd)
  with prm have p: "prm_issue_type (params c1a) = Some i" by simp
  from nav have ok: "fst (navigate_to_screen i ''analysis'' False c1a) = Inr ()" by simp
  from navigate_to_screen_status [OF cr same st p ok] nav
  show "store_status c2 i = Some NEEDS_REVIEW" by simp
qed

lemma example_failed_reset:
  "change_computing_status ''brightness'' False [] [] [] (Some NOT_COMPUTED)
     (example_ctx percentage_config ''delegate_execution'' (Inr (Some ''failed''))) =
   (Inr (), snd (change_computing_status ''brightness'' False [] [] [] (Some NOT_COMPUTED)
     (example_ctx percentage_config ''delegate_execution'' (Inr (Some ''failed'')))))"
proof -
  have "fst (change_computing_status ''brightness'' False [] [] [] (Some NOT_COMPUTED)
            (example_ctx percentage_config ''delegate_execution'' (Inr (Some ''failed'')))) = Inr ()"
    by (simp add: change_computing_status_def example_ctx_def Let_def)
  then show ?thesis by (metis prod.collapse)
qed

lemma example_failed_fallback:
  "process_issue_computation ''brightness'' False
     (snd (change_computing_status ''brightness'' False [] [] [] (Some NOT_COMPUTED)
        (example_ctx percentage_config ''delegate_execution'' (Inr (Some ''failed''))))) =
   (Inr (), snd (process_issue_computation ''brightness'' False
     (snd (change_computing_status ''brightness'' False [] [] [] (Some NOT_COMPUTED)
        (example_ctx percentage_config ''delegate_execution'' (Inr (Some ''failed'')))))))"
proof -
  have "fst (process_issue_computation ''brightness'' False
        (snd (change_computing_status ''brightness'' False [] [] [] (Some NOT_COMPUTED)
            (example_ctx percentage_config ''delegate_execution'' (Inr (Some ''failed'')))))) = Inr ()"
    by code_simp
  then show ?thesis by (metis prod.collapse)
qed

theorem check_computing_status_failed_recovery_witness:
  "prm_issue_type (params (example_ctx percentage_config ''delegate_execution'' (Inr (Some ''failed''))))
     = Some ''brightness''
   \<and> map_option execution_type
        (store_computing (example_ctx percentage_config ''delegate_execution'' (Inr (Some ''failed'')))
           ''brightness'') = Some ''delegate_execution''
   \<and> store_status (example_ctx percentage_config ''delegate_execution'' (Inr (Some ''failed'')))
        ''brightness'' = Some COMPUTING
   \<and> fst (check_computing_status
        (example_ctx percentage_config ''delegate_execution'' (Inr (Some ''failed'')))) = Inr ()
   \<and> store_status (snd (check_computing_status
        (example_ctx percentage_config ''delegate_execution'' (Inr (Some ''failed'')))))
        ''brightness'' = Some NEEDS_REVIEW"
  using check_computing_status_failed_recovery
          [OF example_ctx_delegated(1) example_ctx_delegated(2) example_ctx_delegated(3)
              example_failed_reset example_failed_fallback]
  by (simp add: example_ctx_delegated)

end
